theory Spec2Isabelle
  imports Main "HOL-Library.Word"
begin

section \<open>hookfs: the hooked file system and the hooked file\<close>

text \<open>
  The engine of hookfs sits between go-fuse and a loopback file system. Each of its methods
  asks the hook whether it implements the interface of the operation, runs the Pre method,
  calls the real operation, runs the Post method, and builds what it returns from the three.
  The hook and the loopback file system are supplied from outside; the theory takes them as
  records of functions and follows every method of fs.go and file.go statement by
  statement.
\<close>

subsection \<open>Values\<close>

text \<open>
  A pointer to a structure of go-fuse (\<open>*fuse.Context\<close>, \<open>*fuse.Attr\<close>,
  \<open>*time.Time\<close>, \<open>*fuse.FileLock\<close>, \<open>*fuse.StatfsOut\<close>, \<open>*pathfs.PathNodeFs\<close>)
  is nil or an address; the engine never looks behind one.
\<close>

datatype ptr = nil | Addr nat

type_synonym byte = "8 word"

text \<open>
  \<open>fuse.Status\<close> is an \<open>int32\<close>, so the conversion \<open>int32(lowerCode)\<close> in front of
  every Post method changes nothing. A byte slice, a slice of strings or a slice of
  directory entries is a list, the nil slice the empty list. A directory entry is its
  mode and its name.
\<close>

type_synonym Status = "32 word"

definition OK :: Status where
  "OK = 0"

type_synonym DirEntry = "32 word \<times> string"

text \<open>
  A Go \<open>error\<close> is nil (\<open>None\<close>) or a value. The engine does two things with one:
  it compares it with nil and it hands it to \<open>fuse.ToStatus\<close>. That function belongs to
  go-fuse; it answers \<open>fuse.OK\<close> for nil, and for any other error a status that depends
  on the error alone. A non-nil error is therefore modelled by that status and its text.
\<close>

datatype error = Err (errStatus: Status) (errText: string)

definition ToStatus :: "error option \<Rightarrow> Status" where
  "ToStatus err = (case err of None \<Rightarrow> OK | Some e \<Rightarrow> errStatus e)"

text \<open>
  A method of the engine returns to go-fuse, or the process exits (\<open>Fatal\<close> of logrus
  logs and calls \<open>os.Exit\<close>), or it panics (\<open>Panic\<close> of logrus, a method called on a
  nil interface, \<open>make\<close> with a negative length).
\<close>

datatype 'a outcome = Returned 'a | Exited | Panicked

type_synonym ('w, 'a) eff = "'w \<Rightarrow> 'a \<times> 'w"

subsection \<open>The hook interfaces of hook.go\<close>

text \<open>
  Every interface of hook.go is a pair of methods; a record holds the two. The user's
  methods run outside the engine and may do anything to the world \<open>'w\<close>, so each is
  a function from the world to its results and the new world. A \<open>HookContext\<close> is an
  empty interface: \<open>None\<close> is nil, and the type \<open>'c\<close> of the other values is left open.

  The interfaces the path-level methods of fs.go assert take the return code of the
  real call in their Post method.
\<close>

record 'w HookWithInit =
  Init :: "('w, error option) eff"

record ('w, 'c) HookOnGetAttr =
  PreGetAttr :: "string \<Rightarrow> ('w, bool \<times> 'c option \<times> error option) eff"
  PostGetAttr :: "Status \<Rightarrow> 'c option \<Rightarrow> ('w, bool \<times> error option) eff"

record ('w, 'c) HookOnChmod =
  PreChmod :: "string \<Rightarrow> 32 word \<Rightarrow> ('w, bool \<times> 'c option \<times> error option) eff"
  PostChmod :: "Status \<Rightarrow> 'c option \<Rightarrow> ('w, bool \<times> error option) eff"

record ('w, 'c) HookOnChown =
  PreChown :: "string \<Rightarrow> 32 word \<Rightarrow> 32 word \<Rightarrow> ('w, bool \<times> 'c option \<times> error option) eff"
  PostChown :: "Status \<Rightarrow> 'c option \<Rightarrow> ('w, bool \<times> error option) eff"

record ('w, 'c) HookOnUtimens =
  PreUtimens :: "string \<Rightarrow> ptr \<Rightarrow> ptr \<Rightarrow> ('w, bool \<times> 'c option \<times> error option) eff"
  PostUtimens :: "Status \<Rightarrow> 'c option \<Rightarrow> ('w, bool \<times> error option) eff"

record ('w, 'c) HookOnTruncate =
  PreTruncate :: "string \<Rightarrow> 64 word \<Rightarrow> ('w, bool \<times> 'c option \<times> error option) eff"
  PostTruncate :: "Status \<Rightarrow> 'c option \<Rightarrow> ('w, bool \<times> error option) eff"

record ('w, 'c) HookOnAccess =
  PreAccess :: "string \<Rightarrow> 32 word \<Rightarrow> ('w, bool \<times> 'c option \<times> error option) eff"
  PostAccess :: "Status \<Rightarrow> 'c option \<Rightarrow> ('w, bool \<times> error option) eff"

record ('w, 'c) HookOnLink =
  PreLink :: "string \<Rightarrow> string \<Rightarrow> ('w, bool \<times> 'c option \<times> error option) eff"
  PostLink :: "Status \<Rightarrow> 'c option \<Rightarrow> ('w, bool \<times> error option) eff"

record ('w, 'c) HookOnMkdir =
  PreMkdir :: "string \<Rightarrow> 32 word \<Rightarrow> ('w, bool \<times> 'c option \<times> error option) eff"
  PostMkdir :: "Status \<Rightarrow> 'c option \<Rightarrow> ('w, bool \<times> error option) eff"

record ('w, 'c) HookOnMknod =
  PreMknod :: "string \<Rightarrow> 32 word \<Rightarrow> 32 word \<Rightarrow> ('w, bool \<times> 'c option \<times> error option) eff"
  PostMknod :: "Status \<Rightarrow> 'c option \<Rightarrow> ('w, bool \<times> error option) eff"

record ('w, 'c) HookOnRename =
  PreRename :: "string \<Rightarrow> string \<Rightarrow> ('w, bool \<times> 'c option \<times> error option) eff"
  PostRename :: "Status \<Rightarrow> 'c option \<Rightarrow> ('w, bool \<times> error option) eff"

record ('w, 'c) HookOnRmdir =
  PreRmdir :: "string \<Rightarrow> ('w, bool \<times> 'c option \<times> error option) eff"
  PostRmdir :: "Status \<Rightarrow> 'c option \<Rightarrow> ('w, bool \<times> error option) eff"

record ('w, 'c) HookOnUnlink =
  PreUnlink :: "string \<Rightarrow> ('w, bool \<times> 'c option \<times> error option) eff"
  PostUnlink :: "Status \<Rightarrow> 'c option \<Rightarrow> ('w, bool \<times> error option) eff"

record ('w, 'c) HookOnGetXAttr =
  PreGetXAttr :: "string \<Rightarrow> string \<Rightarrow> ('w, bool \<times> 'c option \<times> error option) eff"
  PostGetXAttr :: "Status \<Rightarrow> 'c option \<Rightarrow> ('w, bool \<times> error option) eff"

record ('w, 'c) HookOnListXAttr =
  PreListXAttr :: "string \<Rightarrow> ('w, bool \<times> 'c option \<times> error option) eff"
  PostListXAttr :: "Status \<Rightarrow> 'c option \<Rightarrow> ('w, bool \<times> error option) eff"

record ('w, 'c) HookOnRemoveXAttr =
  PreRemoveXAttr :: "string \<Rightarrow> string \<Rightarrow> ('w, bool \<times> 'c option \<times> error option) eff"
  PostRemoveXAttr :: "Status \<Rightarrow> 'c option \<Rightarrow> ('w, bool \<times> error option) eff"

record ('w, 'c) HookOnSetXAttr =
  PreSetXAttr :: "string \<Rightarrow> string \<Rightarrow> byte list \<Rightarrow> int \<Rightarrow> ('w, bool \<times> 'c option \<times> error option) eff"
  PostSetXAttr :: "Status \<Rightarrow> 'c option \<Rightarrow> ('w, bool \<times> error option) eff"

record ('w, 'c) HookOnOpen =
  PreOpen :: "string \<Rightarrow> 32 word \<Rightarrow> ('w, bool \<times> 'c option \<times> error option) eff"
  PostOpen :: "Status \<Rightarrow> 'c option \<Rightarrow> ('w, bool \<times> error option) eff"

record ('w, 'c) HookOnCreate =
  PreCreate :: "string \<Rightarrow> 32 word \<Rightarrow> 32 word \<Rightarrow> ('w, bool \<times> 'c option \<times> error option) eff"
  PostCreate :: "Status \<Rightarrow> 'c option \<Rightarrow> ('w, bool \<times> error option) eff"

record ('w, 'c) HookOnOpenDir =
  PreOpenDir :: "string \<Rightarrow> ('w, bool \<times> 'c option \<times> error option) eff"
  PostOpenDir :: "Status \<Rightarrow> 'c option \<Rightarrow> ('w, bool \<times> error option) eff"

record ('w, 'c) HookOnSymlink =
  PreSymlink :: "string \<Rightarrow> string \<Rightarrow> ('w, bool \<times> 'c option \<times> error option) eff"
  PostSymlink :: "Status \<Rightarrow> 'c option \<Rightarrow> ('w, bool \<times> error option) eff"

record ('w, 'c) HookOnReadlink =
  PreReadlink :: "string \<Rightarrow> ('w, bool \<times> 'c option \<times> error option) eff"
  PostReadlink :: "Status \<Rightarrow> 'c option \<Rightarrow> ('w, bool \<times> error option) eff"

record ('w, 'c) HookOnStatFs =
  PreStatFs :: "string \<Rightarrow> ('w, bool \<times> 'c option \<times> error option) eff"
  PostStatFs :: "'c option \<Rightarrow> ('w, bool \<times> error option) eff"

text \<open>
  The interfaces the handle-level methods of file.go assert. \<open>HookOnRead\<close> hands
  buffers over in both directions, \<open>HookOnRelease\<close> has no error. From
  \<open>Truncate\<close> on, file.go calls the Post method with the context alone, and
  \<open>PreGetAttr\<close> with the \<open>out\<close> pointer too: that is the second declaration of
  these interfaces in hook.go. Where fs.go already uses a name with the other signature,
  the handle-level record is prefixed with \<open>f\<close>.
\<close>

record ('w, 'c) HookOnRead =
  PreRead :: "string \<Rightarrow> 64 word \<Rightarrow> 64 word \<Rightarrow> ('w, byte list \<times> bool \<times> 'c option \<times> error option) eff"
  PostRead :: "Status \<Rightarrow> byte list \<Rightarrow> 'c option \<Rightarrow> ('w, byte list \<times> bool \<times> error option) eff"

record ('w, 'c) HookOnWrite =
  PreWrite :: "string \<Rightarrow> byte list \<Rightarrow> 64 word \<Rightarrow> ('w, bool \<times> 'c option \<times> error option) eff"
  PostWrite :: "Status \<Rightarrow> 'c option \<Rightarrow> ('w, bool \<times> error option) eff"

record ('w, 'c) HookOnRelease =
  PreRelease :: "string \<Rightarrow> ('w, bool \<times> 'c option) eff"
  PostRelease :: "'c option \<Rightarrow> ('w, bool) eff"

record ('w, 'c) HookOnFlush =
  PreFlush :: "string \<Rightarrow> ('w, bool \<times> 'c option \<times> error option) eff"
  PostFlush :: "Status \<Rightarrow> 'c option \<Rightarrow> ('w, bool \<times> error option) eff"

record ('w, 'c) HookOnFsync =
  PreFsync :: "string \<Rightarrow> 32 word \<Rightarrow> ('w, bool \<times> 'c option \<times> error option) eff"
  PostFsync :: "Status \<Rightarrow> 'c option \<Rightarrow> ('w, bool \<times> error option) eff"

record ('w, 'c) fHookOnTruncate =
  fPreTruncate :: "string \<Rightarrow> 64 word \<Rightarrow> ('w, bool \<times> 'c option \<times> error option) eff"
  fPostTruncate :: "'c option \<Rightarrow> ('w, bool \<times> error option) eff"

record ('w, 'c) fHookOnGetAttr =
  fPreGetAttr :: "string \<Rightarrow> ptr \<Rightarrow> ('w, bool \<times> 'c option \<times> error option) eff"
  fPostGetAttr :: "'c option \<Rightarrow> ('w, bool \<times> error option) eff"

record ('w, 'c) fHookOnChown =
  fPreChown :: "string \<Rightarrow> 32 word \<Rightarrow> 32 word \<Rightarrow> ('w, bool \<times> 'c option \<times> error option) eff"
  fPostChown :: "'c option \<Rightarrow> ('w, bool \<times> error option) eff"

record ('w, 'c) fHookOnChmod =
  fPreChmod :: "string \<Rightarrow> 32 word \<Rightarrow> ('w, bool \<times> 'c option \<times> error option) eff"
  fPostChmod :: "'c option \<Rightarrow> ('w, bool \<times> error option) eff"

record ('w, 'c) fHookOnUtimens =
  fPreUtimens :: "string \<Rightarrow> ptr \<Rightarrow> ptr \<Rightarrow> ('w, bool \<times> 'c option \<times> error option) eff"
  fPostUtimens :: "'c option \<Rightarrow> ('w, bool \<times> error option) eff"

record ('w, 'c) HookOnAllocate =
  PreAllocate :: "string \<Rightarrow> 64 word \<Rightarrow> 64 word \<Rightarrow> 32 word \<Rightarrow> ('w, bool \<times> 'c option \<times> error option) eff"
  PostAllocate :: "'c option \<Rightarrow> ('w, bool \<times> error option) eff"

record ('w, 'c) HookOnGetLk =
  PreGetLk :: "string \<Rightarrow> 64 word \<Rightarrow> ptr \<Rightarrow> 32 word \<Rightarrow> ptr \<Rightarrow> ('w, bool \<times> 'c option \<times> error option) eff"
  PostGetLk :: "'c option \<Rightarrow> ('w, bool \<times> error option) eff"

record ('w, 'c) HookOnSetLk =
  PreSetLk :: "string \<Rightarrow> 64 word \<Rightarrow> ptr \<Rightarrow> 32 word \<Rightarrow> ('w, bool \<times> 'c option \<times> error option) eff"
  PostSetLk :: "'c option \<Rightarrow> ('w, bool \<times> error option) eff"

record ('w, 'c) HookOnSetLkw =
  PreSetLkw :: "string \<Rightarrow> 64 word \<Rightarrow> ptr \<Rightarrow> 32 word \<Rightarrow> ('w, bool \<times> 'c option \<times> error option) eff"
  PostSetLkw :: "'c option \<Rightarrow> ('w, bool \<times> error option) eff"

text \<open>
  \<open>Hook\<close> is the empty interface: a hook value implements whichever of the interfaces
  above it likes. The value is modelled by what the type assertions of fs.go and file.go
  can find in it, one optional field for each interface.
\<close>

record ('w, 'c) Hook =
  asHookWithInit :: "'w HookWithInit option"
  asHookOnGetAttr :: "('w, 'c) HookOnGetAttr option"
  asHookOnChmod :: "('w, 'c) HookOnChmod option"
  asHookOnChown :: "('w, 'c) HookOnChown option"
  asHookOnUtimens :: "('w, 'c) HookOnUtimens option"
  asHookOnTruncate :: "('w, 'c) HookOnTruncate option"
  asHookOnAccess :: "('w, 'c) HookOnAccess option"
  asHookOnLink :: "('w, 'c) HookOnLink option"
  asHookOnMkdir :: "('w, 'c) HookOnMkdir option"
  asHookOnMknod :: "('w, 'c) HookOnMknod option"
  asHookOnRename :: "('w, 'c) HookOnRename option"
  asHookOnRmdir :: "('w, 'c) HookOnRmdir option"
  asHookOnUnlink :: "('w, 'c) HookOnUnlink option"
  asHookOnGetXAttr :: "('w, 'c) HookOnGetXAttr option"
  asHookOnListXAttr :: "('w, 'c) HookOnListXAttr option"
  asHookOnRemoveXAttr :: "('w, 'c) HookOnRemoveXAttr option"
  asHookOnSetXAttr :: "('w, 'c) HookOnSetXAttr option"
  asHookOnOpen :: "('w, 'c) HookOnOpen option"
  asHookOnCreate :: "('w, 'c) HookOnCreate option"
  asHookOnOpenDir :: "('w, 'c) HookOnOpenDir option"
  asHookOnSymlink :: "('w, 'c) HookOnSymlink option"
  asHookOnReadlink :: "('w, 'c) HookOnReadlink option"
  asHookOnStatFs :: "('w, 'c) HookOnStatFs option"
  asHookOnRead :: "('w, 'c) HookOnRead option"
  asHookOnWrite :: "('w, 'c) HookOnWrite option"
  asHookOnFlush :: "('w, 'c) HookOnFlush option"
  asHookOnRelease :: "('w, 'c) HookOnRelease option"
  asHookOnFsync :: "('w, 'c) HookOnFsync option"
  asfHookOnTruncate :: "('w, 'c) fHookOnTruncate option"
  asfHookOnGetAttr :: "('w, 'c) fHookOnGetAttr option"
  asfHookOnChown :: "('w, 'c) fHookOnChown option"
  asfHookOnChmod :: "('w, 'c) fHookOnChmod option"
  asfHookOnUtimens :: "('w, 'c) fHookOnUtimens option"
  asHookOnAllocate :: "('w, 'c) HookOnAllocate option"
  asHookOnGetLk :: "('w, 'c) HookOnGetLk option"
  asHookOnSetLk :: "('w, 'c) HookOnSetLk option"
  asHookOnSetLkw :: "('w, 'c) HookOnSetLkw option"

subsection \<open>The delegates: pathfs.FileSystem and nodefs.File\<close>

text \<open>
  Both are interfaces of go-fuse, implemented outside the repository (the loopback file
  system and its files). A value is the record of the methods the engine calls, each
  again a function on the world. A \<open>fuse.ReadResult\<close> is an interface too: \<open>Bytes\<close>
  may read a file descriptor, \<open>Size\<close> is the length it announces.
\<close>

record 'w ReadResult =
  Bytes :: "byte list \<Rightarrow> ('w, byte list \<times> Status) eff"
  Size :: int

record 'w File =
  Read :: "byte list \<Rightarrow> 64 word \<Rightarrow> ('w, 'w ReadResult option \<times> Status) eff"
  Write :: "byte list \<Rightarrow> 64 word \<Rightarrow> ('w, 32 word \<times> Status) eff"
  Flush :: "('w, Status) eff"
  Release :: "('w, unit) eff"
  Fsync :: "int \<Rightarrow> ('w, Status) eff"
  Truncate :: "64 word \<Rightarrow> ('w, Status) eff"
  GetAttr :: "ptr \<Rightarrow> ('w, Status) eff"
  Chown :: "32 word \<Rightarrow> 32 word \<Rightarrow> ('w, Status) eff"
  Chmod :: "32 word \<Rightarrow> ('w, Status) eff"
  Utimens :: "ptr \<Rightarrow> ptr \<Rightarrow> ('w, Status) eff"
  Allocate :: "64 word \<Rightarrow> 64 word \<Rightarrow> 32 word \<Rightarrow> ('w, Status) eff"
  GetLk :: "64 word \<Rightarrow> ptr \<Rightarrow> 32 word \<Rightarrow> ptr \<Rightarrow> ('w, Status) eff"
  SetLk :: "64 word \<Rightarrow> ptr \<Rightarrow> 32 word \<Rightarrow> ('w, Status) eff"
  SetLkw :: "64 word \<Rightarrow> ptr \<Rightarrow> 32 word \<Rightarrow> ('w, Status) eff"

record 'w FileSystem =
  GetAttr :: "string \<Rightarrow> ptr \<Rightarrow> ('w, ptr \<times> Status) eff"
  Chmod :: "string \<Rightarrow> 32 word \<Rightarrow> ptr \<Rightarrow> ('w, Status) eff"
  Chown :: "string \<Rightarrow> 32 word \<Rightarrow> 32 word \<Rightarrow> ptr \<Rightarrow> ('w, Status) eff"
  Utimens :: "string \<Rightarrow> ptr \<Rightarrow> ptr \<Rightarrow> ptr \<Rightarrow> ('w, Status) eff"
  Truncate :: "string \<Rightarrow> 64 word \<Rightarrow> ptr \<Rightarrow> ('w, Status) eff"
  Access :: "string \<Rightarrow> 32 word \<Rightarrow> ptr \<Rightarrow> ('w, Status) eff"
  Link :: "string \<Rightarrow> string \<Rightarrow> ptr \<Rightarrow> ('w, Status) eff"
  Mkdir :: "string \<Rightarrow> 32 word \<Rightarrow> ptr \<Rightarrow> ('w, Status) eff"
  Mknod :: "string \<Rightarrow> 32 word \<Rightarrow> 32 word \<Rightarrow> ptr \<Rightarrow> ('w, Status) eff"
  Rename :: "string \<Rightarrow> string \<Rightarrow> ptr \<Rightarrow> ('w, Status) eff"
  Rmdir :: "string \<Rightarrow> ptr \<Rightarrow> ('w, Status) eff"
  Unlink :: "string \<Rightarrow> ptr \<Rightarrow> ('w, Status) eff"
  GetXAttr :: "string \<Rightarrow> string \<Rightarrow> ptr \<Rightarrow> ('w, byte list \<times> Status) eff"
  ListXAttr :: "string \<Rightarrow> ptr \<Rightarrow> ('w, string list \<times> Status) eff"
  RemoveXAttr :: "string \<Rightarrow> string \<Rightarrow> ptr \<Rightarrow> ('w, Status) eff"
  SetXAttr :: "string \<Rightarrow> string \<Rightarrow> byte list \<Rightarrow> int \<Rightarrow> ptr \<Rightarrow> ('w, Status) eff"
  Open :: "string \<Rightarrow> 32 word \<Rightarrow> ptr \<Rightarrow> ('w, 'w File option \<times> Status) eff"
  Create :: "string \<Rightarrow> 32 word \<Rightarrow> 32 word \<Rightarrow> ptr \<Rightarrow> ('w, 'w File option \<times> Status) eff"
  OpenDir :: "string \<Rightarrow> ptr \<Rightarrow> ('w, DirEntry list \<times> Status) eff"
  Symlink :: "string \<Rightarrow> string \<Rightarrow> ptr \<Rightarrow> ('w, Status) eff"
  Readlink :: "string \<Rightarrow> ptr \<Rightarrow> ('w, string \<times> Status) eff"
  StatFs :: "string \<Rightarrow> ('w, ptr) eff"
  OnMount :: "ptr \<Rightarrow> ('w, unit) eff"
  OnUnmount :: "('w, unit) eff"

subsection \<open>What a method returns, and the record of its calls\<close>

text \<open>
  The shapes of the results of the methods, in one type: \<open>'f\<close> is the file handle, a
  \<open>nodefs.File\<close> of the delegate or a hooked file of the engine.
\<close>

datatype ('f, 'w) ret =
    RetStatus Status
  | RetAttr ptr Status
  | RetBytes "byte list" Status
  | RetStrings "string list" Status
  | RetString string Status
  | RetFile 'f Status
  | RetEntries "DirEntry list" Status
  | RetStatfs ptr
  | RetRead "'w ReadResult option" Status
  | RetWritten "32 word" Status
  | RetUnit

fun retStatus :: "('f, 'w) ret \<Rightarrow> Status option" where
  "retStatus (RetStatus c) = Some c"
| "retStatus (RetAttr a c) = Some c"
| "retStatus (RetBytes b c) = Some c"
| "retStatus (RetStrings l c) = Some c"
| "retStatus (RetString l c) = Some c"
| "retStatus (RetFile f c) = Some c"
| "retStatus (RetEntries l c) = Some c"
| "retStatus (RetStatfs p) = None"
| "retStatus (RetRead r c) = Some c"
| "retStatus (RetWritten n c) = Some c"
| "retStatus RetUnit = None"

text \<open>
  Every call that leaves the engine is written down in the order it happens, with what
  came back: the messages handed to logrus, the Pre and Post methods of the hook with the
  buffer, the \<open>hooked\<close> flag and the error they returned, \<open>Init\<close>, the methods of the
  delegate file system and of the delegate file, and \<open>Bytes\<close> of a read result.
\<close>

datatype Level = TraceLevel | DebugLevel | WarnLevel | ErrorLevel | FatalLevel | PanicLevel

datatype 'w event =
    Log Level string
  | PreHook string "byte list" bool "error option"
  | PostHook string "byte list" bool "error option"
  | InitHook "error option"
  | FsCall string "('w File option, 'w) ret"
  | FileCall string "('w File option, 'w) ret"
  | ResultCall string "('w File option, 'w) ret"

record 'w run =
  world :: "'w"
  trace :: "'w event list"

definition logf :: "Level \<Rightarrow> string \<Rightarrow> 'w run \<Rightarrow> 'w run" where
  "logf l msg s = s\<lparr>trace := trace s @ [Log l msg]\<rparr>"

definition invoke :: "('a \<Rightarrow> 'w event) \<Rightarrow> ('w, 'a) eff \<Rightarrow> 'w run \<Rightarrow> 'a \<times> 'w run" where
  "invoke ev m s = (case m (world s) of (r, w) \<Rightarrow> (r, \<lparr>world = w, trace = trace s @ [ev r]\<rparr>))"

definition preEvent :: "string \<Rightarrow> bool \<times> 'c option \<times> error option \<Rightarrow> 'w event" where
  "preEvent op = (\<lambda>(hooked, ctx, err). PreHook op [] hooked err)"

definition postEvent :: "string \<Rightarrow> bool \<times> error option \<Rightarrow> 'w event" where
  "postEvent op = (\<lambda>(hooked, err). PostHook op [] hooked err)"

text \<open>The type assertion \<open>h.hook.(I)\<close>: it fails on a nil hook and on one without \<open>I\<close>.\<close>

definition typeAssert :: "('h \<Rightarrow> 'i option) \<Rightarrow> 'h option \<Rightarrow> 'i option" where
  "typeAssert I hook = (case hook of None \<Rightarrow> None | Some hv \<Rightarrow> I hv)"

text \<open>
  \<open>fuse.ReadResultData\<close> of go-fuse wraps a buffer: \<open>Bytes\<close> returns the buffer and
  \<open>fuse.OK\<close>, \<open>Size\<close> its length.
\<close>

definition ReadResultData :: "byte list \<Rightarrow> 'w ReadResult" where
  "ReadResultData b = \<lparr>Bytes = (\<lambda>buf w. ((b, OK), w)), Size = int (length b)\<rparr>"

subsection \<open>file.go\<close>

text \<open>
  The structure \<open>hookFile\<close> with its fields \<open>file\<close>, \<open>name\<close> and \<open>hook\<close>. A
  \<open>nodefs.File\<close> is an interface, so the field may hold nil.
\<close>

record ('w, 'c) hookFile =
  h_file :: "'w File option"
  h_name :: string
  h_hook :: "('w, 'c) Hook option"

definition newHookFile ::
  "'w File option \<Rightarrow> string \<Rightarrow> ('w, 'c) Hook option \<Rightarrow> 'w run \<Rightarrow> (('w, 'c) hookFile \<times> error option) \<times> 'w run" where
  "newHookFile file name hook s0 =
    (let s1 = logf DebugLevel ''Hooking a file'' s0;
         hookfile = \<lparr>h_file = file, h_name = name, h_hook = hook\<rparr>
     in ((hookfile, None), s1))"

definition hookFile_Read :: "('w, 'c) hookFile \<Rightarrow> byte list \<Rightarrow> 64 word \<Rightarrow> 'w run \<Rightarrow> ('w ReadResult option \<times> Status) outcome \<times> 'w run" where
  "hookFile_Read h dest off s0 =
    (let hookE = typeAssert asHookOnRead (h_hook h);
         s1 = logf TraceLevel ''f.Read'' s0;
         ((prehookBuf, prehooked, prehookCtx, prehookErr), s2) =
           (case hookE of
              Some hk \<Rightarrow> invoke (\<lambda>(buf, hooked, ctx, err). PreHook ''Read'' buf hooked err)
                           (PreRead hk (h_name h) (of_nat (length dest)) off) s1
            | None \<Rightarrow> (([], False, None, None), s1))
     in if prehooked then
          (Returned (Some (ReadResultData prehookBuf), ToStatus prehookErr), logf DebugLevel ''Read: Prehooked'' s2)
        else
          (case h_file h of
             None \<Rightarrow> (Panicked, s2)
           | Some f \<Rightarrow>
               (let ((lowerRR, lowerCode), s3) = invoke (FileCall ''Read'' \<circ> case_prod RetRead) (File.Read f dest off) s2
                in case hookE of
                     None \<Rightarrow> (Returned (lowerRR, lowerCode), s3)
                   | Some hk \<Rightarrow>
                       (case lowerRR of
                          None \<Rightarrow> (Panicked, s3)
                        | Some rr \<Rightarrow>
                            if Size rr < 0 then (Panicked, s3)
                            else
                              (let ((lowerRRBuf, lowerRRBufStatus), s4) =
                                     invoke (ResultCall ''Bytes'' \<circ> case_prod RetBytes) (Bytes rr (replicate (nat (Size rr)) 0)) s3
                               in if lowerRRBufStatus \<noteq> OK then
                                    (Panicked, logf PanicLevel ''lowerRR.Bytes() should not cause an error'' s4)
                                  else
                                    (let ((posthookBuf, posthooked, posthookErr), s5) =
                                           invoke (\<lambda>(buf, hooked, err). PostHook ''Read'' buf hooked err)
                                             (PostRead hk lowerCode lowerRRBuf prehookCtx) s4
                                     in if posthooked then
                                          (let s6 = (if length posthookBuf \<noteq> length lowerRRBuf then
                                                       logf WarnLevel ''Read: Posthooked, but posthookBuf length != lowerrRRBuf length. You may get a strange behavior.'' s5
                                                     else s5)
                                           in (Returned (Some (ReadResultData posthookBuf), ToStatus posthookErr),
                                               logf DebugLevel ''Read: Posthooked'' s6))
                                        else (Returned (lowerRR, lowerCode), s5)))))))"

definition hookFile_Write :: "('w, 'c) hookFile \<Rightarrow> byte list \<Rightarrow> 64 word \<Rightarrow> 'w run \<Rightarrow> (32 word \<times> Status) outcome \<times> 'w run" where
  "hookFile_Write h data off s0 =
    (let hookE = typeAssert asHookOnWrite (h_hook h);
         s1 = logf TraceLevel ''f.Write'' s0;
         ((prehooked, prehookCtx, prehookErr), s2) =
           (case hookE of
              Some hk \<Rightarrow> invoke (preEvent ''Write'') (PreWrite hk (h_name h) data off) s1
            | None \<Rightarrow> ((False, None, None), s1))
     in if prehooked then
          (Returned (0, ToStatus prehookErr), logf DebugLevel ''Write: Prehooked'' s2)
        else
          (case h_file h of
             None \<Rightarrow> (Panicked, s2)
           | Some f \<Rightarrow>
               (let ((lowerWritten, lowerCode), s3) = invoke (FileCall ''Write'' \<circ> case_prod RetWritten) (File.Write f data off) s2;
                    ((posthooked, posthookErr), s4) =
                      (case hookE of
                         Some hk \<Rightarrow> invoke (postEvent ''Write'') (PostWrite hk lowerCode prehookCtx) s3
                       | None \<Rightarrow> ((False, None), s3))
                in if posthooked then
                     (Returned (0, ToStatus posthookErr), logf DebugLevel ''Write: Posthooked'' s4)
                   else (Returned (lowerWritten, lowerCode), s4))))"

definition hookFile_Flush :: "('w, 'c) hookFile \<Rightarrow> 'w run \<Rightarrow> Status outcome \<times> 'w run" where
  "hookFile_Flush h s0 =
    (let hookE = typeAssert asHookOnFlush (h_hook h);
         s1 = logf TraceLevel ''f.Flush'' s0;
         ((prehooked, prehookCtx, prehookErr), s2) =
           (case hookE of
              Some hk \<Rightarrow> invoke (preEvent ''Flush'') (PreFlush hk (h_name h)) s1
            | None \<Rightarrow> ((False, None, None), s1))
     in if prehooked then
          (Returned (ToStatus prehookErr), logf DebugLevel ''Flush: Prehooked'' s2)
        else
          (case h_file h of
             None \<Rightarrow> (Panicked, s2)
           | Some f \<Rightarrow>
               (let (lowerCode, s3) = invoke (FileCall ''Flush'' \<circ> RetStatus) (File.Flush f) s2;
                    ((posthooked, posthookErr), s4) =
                      (case hookE of
                         Some hk \<Rightarrow> invoke (postEvent ''Flush'') (PostFlush hk lowerCode prehookCtx) s3
                       | None \<Rightarrow> ((False, None), s3))
                in if posthooked then
                     (Returned (ToStatus posthookErr), logf DebugLevel ''Flush: Posthooked'' s4)
                   else (Returned lowerCode, s4))))"

definition hookFile_Release :: "('w, 'c) hookFile \<Rightarrow> 'w run \<Rightarrow> unit outcome \<times> 'w run" where
  "hookFile_Release h s0 =
    (let hookE = typeAssert asHookOnRelease (h_hook h);
         s1 = logf TraceLevel ''f.Release'' s0;
         ((prehooked, prehookCtx), s2) =
           (case hookE of
              Some hk \<Rightarrow> invoke (\<lambda>(hooked, ctx). PreHook ''Release'' [] hooked None) (PreRelease hk (h_name h)) s1
            | None \<Rightarrow> ((False, None), s1));
         s3 = (if prehooked then logf DebugLevel ''Release: Prehooked'' s2 else s2)
     in case h_file h of
          None \<Rightarrow> (Panicked, s3)
        | Some f \<Rightarrow>
            (let (u, s4) = invoke (\<lambda>u. FileCall ''Release'' RetUnit) (File.Release f) s3;
                 (posthooked, s5) =
                   (case hookE of
                      Some hk \<Rightarrow> invoke (\<lambda>hooked. PostHook ''Release'' [] hooked None) (PostRelease hk prehookCtx) s4
                    | None \<Rightarrow> (False, s4));
                 s6 = (if posthooked then logf DebugLevel ''Release: Posthooked'' s5 else s5)
             in (Returned (), s6)))"

definition hookFile_Fsync :: "('w, 'c) hookFile \<Rightarrow> int \<Rightarrow> 'w run \<Rightarrow> Status outcome \<times> 'w run" where
  "hookFile_Fsync h flags s0 =
    (let hookE = typeAssert asHookOnFsync (h_hook h);
         s1 = logf TraceLevel ''f.Fsync'' s0;
         ((prehooked, prehookCtx, prehookErr), s2) =
           (case hookE of
              Some hk \<Rightarrow> invoke (preEvent ''Fsync'') (PreFsync hk (h_name h) (word_of_int flags)) s1
            | None \<Rightarrow> ((False, None, None), s1))
     in if prehooked then
          (Returned (ToStatus prehookErr), logf DebugLevel ''Fsync: Prehooked'' s2)
        else
          (case h_file h of
             None \<Rightarrow> (Panicked, s2)
           | Some f \<Rightarrow>
               (let (lowerCode, s3) = invoke (FileCall ''Fsync'' \<circ> RetStatus) (File.Fsync f flags) s2;
                    ((posthooked, posthookErr), s4) =
                      (case hookE of
                         Some hk \<Rightarrow> invoke (postEvent ''Fsync'') (PostFsync hk lowerCode prehookCtx) s3
                       | None \<Rightarrow> ((False, None), s3))
                in if posthooked then
                     (Returned (ToStatus posthookErr), logf DebugLevel ''Fsync: Posthooked'' s4)
                   else (Returned lowerCode, s4))))"

definition hookFile_Truncate :: "('w, 'c) hookFile \<Rightarrow> 64 word \<Rightarrow> 'w run \<Rightarrow> Status outcome \<times> 'w run" where
  "hookFile_Truncate h size' s0 =
    (let hookE = typeAssert asfHookOnTruncate (h_hook h);
         s1 = logf TraceLevel ''f.Truncate'' s0;
         ((prehooked, prehookCtx, prehookErr), s2) =
           (case hookE of
              Some hk \<Rightarrow> invoke (preEvent ''Truncate'') (fPreTruncate hk (h_name h) size') s1
            | None \<Rightarrow> ((False, None, None), s1))
     in if prehooked then
          (Returned (ToStatus prehookErr), logf DebugLevel ''Truncate: Prehooked'' s2)
        else
          (case h_file h of
             None \<Rightarrow> (Panicked, s2)
           | Some f \<Rightarrow>
               (let (lowerCode, s3) = invoke (FileCall ''Truncate'' \<circ> RetStatus) (File.Truncate f size') s2;
                    ((posthooked, posthookErr), s4) =
                      (case hookE of
                         Some hk \<Rightarrow> invoke (postEvent ''Truncate'') (fPostTruncate hk prehookCtx) s3
                       | None \<Rightarrow> ((False, None), s3))
                in if posthooked then
                     (Returned (ToStatus posthookErr), logf DebugLevel ''Truncate: Posthooked'' s4)
                   else (Returned lowerCode, s4))))"

definition hookFile_GetAttr :: "('w, 'c) hookFile \<Rightarrow> ptr \<Rightarrow> 'w run \<Rightarrow> Status outcome \<times> 'w run" where
  "hookFile_GetAttr h out s0 =
    (let hookE = typeAssert asfHookOnGetAttr (h_hook h);
         s1 = logf TraceLevel ''f.GetAttr'' s0;
         ((prehooked, prehookCtx, prehookErr), s2) =
           (case hookE of
              Some hk \<Rightarrow> invoke (preEvent ''GetAttr'') (fPreGetAttr hk (h_name h) out) s1
            | None \<Rightarrow> ((False, None, None), s1))
     in if prehooked then
          (Returned (ToStatus prehookErr), logf DebugLevel ''GetAttr: Prehooked'' s2)
        else
          (case h_file h of
             None \<Rightarrow> (Panicked, s2)
           | Some f \<Rightarrow>
               (let (lowerCode, s3) = invoke (FileCall ''GetAttr'' \<circ> RetStatus) (File.GetAttr f out) s2;
                    ((posthooked, posthookErr), s4) =
                      (case hookE of
                         Some hk \<Rightarrow> invoke (postEvent ''GetAttr'') (fPostGetAttr hk prehookCtx) s3
                       | None \<Rightarrow> ((False, None), s3))
                in if posthooked then
                     (Returned (ToStatus posthookErr), logf DebugLevel ''GetAttr: Posthooked'' s4)
                   else (Returned lowerCode, s4))))"

definition hookFile_Chown :: "('w, 'c) hookFile \<Rightarrow> 32 word \<Rightarrow> 32 word \<Rightarrow> 'w run \<Rightarrow> Status outcome \<times> 'w run" where
  "hookFile_Chown h uid gid s0 =
    (let hookE = typeAssert asfHookOnChown (h_hook h);
         s1 = logf TraceLevel ''f.Chown'' s0;
         ((prehooked, prehookCtx, prehookErr), s2) =
           (case hookE of
              Some hk \<Rightarrow> invoke (preEvent ''Chown'') (fPreChown hk (h_name h) uid gid) s1
            | None \<Rightarrow> ((False, None, None), s1))
     in if prehooked then
          (Returned (ToStatus prehookErr), logf DebugLevel ''Chown: Prehooked'' s2)
        else
          (case h_file h of
             None \<Rightarrow> (Panicked, s2)
           | Some f \<Rightarrow>
               (let (lowerCode, s3) = invoke (FileCall ''Chown'' \<circ> RetStatus) (File.Chown f uid gid) s2;
                    ((posthooked, posthookErr), s4) =
                      (case hookE of
                         Some hk \<Rightarrow> invoke (postEvent ''Chown'') (fPostChown hk prehookCtx) s3
                       | None \<Rightarrow> ((False, None), s3))
                in if posthooked then
                     (Returned (ToStatus posthookErr), logf DebugLevel ''Chown: Posthooked'' s4)
                   else (Returned lowerCode, s4))))"

definition hookFile_Chmod :: "('w, 'c) hookFile \<Rightarrow> 32 word \<Rightarrow> 'w run \<Rightarrow> Status outcome \<times> 'w run" where
  "hookFile_Chmod h perms s0 =
    (let hookE = typeAssert asfHookOnChmod (h_hook h);
         s1 = logf TraceLevel ''f.Chmod'' s0;
         ((prehooked, prehookCtx, prehookErr), s2) =
           (case hookE of
              Some hk \<Rightarrow> invoke (preEvent ''Chmod'') (fPreChmod hk (h_name h) perms) s1
            | None \<Rightarrow> ((False, None, None), s1))
     in if prehooked then
          (Returned (ToStatus prehookErr), logf DebugLevel ''Chmod: Prehooked'' s2)
        else
          (case h_file h of
             None \<Rightarrow> (Panicked, s2)
           | Some f \<Rightarrow>
               (let (lowerCode, s3) = invoke (FileCall ''Chmod'' \<circ> RetStatus) (File.Chmod f perms) s2;
                    ((posthooked, posthookErr), s4) =
                      (case hookE of
                         Some hk \<Rightarrow> invoke (postEvent ''Chmod'') (fPostChmod hk prehookCtx) s3
                       | None \<Rightarrow> ((False, None), s3))
                in if posthooked then
                     (Returned (ToStatus posthookErr), logf DebugLevel ''Chmod: Posthooked'' s4)
                   else (Returned lowerCode, s4))))"

definition hookFile_Utimens :: "('w, 'c) hookFile \<Rightarrow> ptr \<Rightarrow> ptr \<Rightarrow> 'w run \<Rightarrow> Status outcome \<times> 'w run" where
  "hookFile_Utimens h atime mtime s0 =
    (let hookE = typeAssert asfHookOnUtimens (h_hook h);
         s1 = logf TraceLevel ''f.Utimens'' s0;
         ((prehooked, prehookCtx, prehookErr), s2) =
           (case hookE of
              Some hk \<Rightarrow> invoke (preEvent ''Utimens'') (fPreUtimens hk (h_name h) atime mtime) s1
            | None \<Rightarrow> ((False, None, None), s1))
     in if prehooked then
          (Returned (ToStatus prehookErr), logf DebugLevel ''Utimens: Prehooked'' s2)
        else
          (case h_file h of
             None \<Rightarrow> (Panicked, s2)
           | Some f \<Rightarrow>
               (let (lowerCode, s3) = invoke (FileCall ''Utimens'' \<circ> RetStatus) (File.Utimens f atime mtime) s2;
                    ((posthooked, posthookErr), s4) =
                      (case hookE of
                         Some hk \<Rightarrow> invoke (postEvent ''Utimens'') (fPostUtimens hk prehookCtx) s3
                       | None \<Rightarrow> ((False, None), s3))
                in if posthooked then
                     (Returned (ToStatus posthookErr), logf DebugLevel ''Utimens: Posthooked'' s4)
                   else (Returned lowerCode, s4))))"

definition hookFile_Allocate :: "('w, 'c) hookFile \<Rightarrow> 64 word \<Rightarrow> 64 word \<Rightarrow> 32 word \<Rightarrow> 'w run \<Rightarrow> Status outcome \<times> 'w run" where
  "hookFile_Allocate h off size' mode s0 =
    (let hookE = typeAssert asHookOnAllocate (h_hook h);
         s1 = logf TraceLevel ''f.Allocate'' s0;
         ((prehooked, prehookCtx, prehookErr), s2) =
           (case hookE of
              Some hk \<Rightarrow> invoke (preEvent ''Allocate'') (PreAllocate hk (h_name h) off size' mode) s1
            | None \<Rightarrow> ((False, None, None), s1))
     in if prehooked then
          (Returned (ToStatus prehookErr), logf DebugLevel ''Allocate: Prehooked'' s2)
        else
          (case h_file h of
             None \<Rightarrow> (Panicked, s2)
           | Some f \<Rightarrow>
               (let (lowerCode, s3) = invoke (FileCall ''Allocate'' \<circ> RetStatus) (File.Allocate f off size' mode) s2;
                    ((posthooked, posthookErr), s4) =
                      (case hookE of
                         Some hk \<Rightarrow> invoke (postEvent ''Allocate'') (PostAllocate hk prehookCtx) s3
                       | None \<Rightarrow> ((False, None), s3))
                in if posthooked then
                     (Returned (ToStatus posthookErr), logf DebugLevel ''Allocate: Posthooked'' s4)
                   else (Returned lowerCode, s4))))"

definition hookFile_GetLk :: "('w, 'c) hookFile \<Rightarrow> 64 word \<Rightarrow> ptr \<Rightarrow> 32 word \<Rightarrow> ptr \<Rightarrow> 'w run \<Rightarrow> Status outcome \<times> 'w run" where
  "hookFile_GetLk h owner lk flags out s0 =
    (let hookE = typeAssert asHookOnGetLk (h_hook h);
         s1 = logf TraceLevel ''f.GetLk'' s0;
         ((prehooked, prehookCtx, prehookErr), s2) =
           (case hookE of
              Some hk \<Rightarrow> invoke (preEvent ''GetLk'') (PreGetLk hk (h_name h) owner lk flags out) s1
            | None \<Rightarrow> ((False, None, None), s1))
     in if prehooked then
          (Returned (ToStatus prehookErr), logf DebugLevel ''GetLk: Prehooked'' s2)
        else
          (case h_file h of
             None \<Rightarrow> (Panicked, s2)
           | Some f \<Rightarrow>
               (let (lowerCode, s3) = invoke (FileCall ''GetLk'' \<circ> RetStatus) (File.GetLk f owner lk flags out) s2;
                    ((posthooked, posthookErr), s4) =
                      (case hookE of
                         Some hk \<Rightarrow> invoke (postEvent ''GetLk'') (PostGetLk hk prehookCtx) s3
                       | None \<Rightarrow> ((False, None), s3))
                in if posthooked then
                     (Returned (ToStatus posthookErr), logf DebugLevel ''GetLk: Posthooked'' s4)
                   else (Returned lowerCode, s4))))"

definition hookFile_SetLk :: "('w, 'c) hookFile \<Rightarrow> 64 word \<Rightarrow> ptr \<Rightarrow> 32 word \<Rightarrow> 'w run \<Rightarrow> Status outcome \<times> 'w run" where
  "hookFile_SetLk h owner lk flags s0 =
    (let hookE = typeAssert asHookOnSetLk (h_hook h);
         s1 = logf TraceLevel ''f.SetLk'' s0;
         ((prehooked, prehookCtx, prehookErr), s2) =
           (case hookE of
              Some hk \<Rightarrow> invoke (preEvent ''SetLk'') (PreSetLk hk (h_name h) owner lk flags) s1
            | None \<Rightarrow> ((False, None, None), s1))
     in if prehooked then
          (Returned (ToStatus prehookErr), logf DebugLevel ''SetLk: Prehooked'' s2)
        else
          (case h_file h of
             None \<Rightarrow> (Panicked, s2)
           | Some f \<Rightarrow>
               (let (lowerCode, s3) = invoke (FileCall ''SetLk'' \<circ> RetStatus) (File.SetLk f owner lk flags) s2;
                    ((posthooked, posthookErr), s4) =
                      (case hookE of
                         Some hk \<Rightarrow> invoke (postEvent ''SetLk'') (PostSetLk hk prehookCtx) s3
                       | None \<Rightarrow> ((False, None), s3))
                in if posthooked then
                     (Returned (ToStatus posthookErr), logf DebugLevel ''SetLk: Posthooked'' s4)
                   else (Returned lowerCode, s4))))"

definition hookFile_SetLkw :: "('w, 'c) hookFile \<Rightarrow> 64 word \<Rightarrow> ptr \<Rightarrow> 32 word \<Rightarrow> 'w run \<Rightarrow> Status outcome \<times> 'w run" where
  "hookFile_SetLkw h owner lk flags s0 =
    (let hookE = typeAssert asHookOnSetLkw (h_hook h);
         s1 = logf TraceLevel ''f.SetLkw'' s0;
         ((prehooked, prehookCtx, prehookErr), s2) =
           (case hookE of
              Some hk \<Rightarrow> invoke (preEvent ''SetLkw'') (PreSetLkw hk (h_name h) owner lk flags) s1
            | None \<Rightarrow> ((False, None, None), s1))
     in if prehooked then
          (Returned (ToStatus prehookErr), logf DebugLevel ''SetLkw: Prehooked'' s2)
        else
          (case h_file h of
             None \<Rightarrow> (Panicked, s2)
           | Some f \<Rightarrow>
               (let (lowerCode, s3) = invoke (FileCall ''SetLkw'' \<circ> RetStatus) (File.SetLkw f owner lk flags) s2;
                    ((posthooked, posthookErr), s4) =
                      (case hookE of
                         Some hk \<Rightarrow> invoke (postEvent ''SetLkw'') (PostSetLkw hk prehookCtx) s3
                       | None \<Rightarrow> ((False, None), s3))
                in if posthooked then
                     (Returned (ToStatus posthookErr), logf DebugLevel ''SetLkw: Posthooked'' s4)
                   else (Returned lowerCode, s4))))"

subsection \<open>fs.go\<close>

text \<open>
  The structure \<open>HookFs\<close>. \<open>NewHookFs\<close> always puts a loopback file system into
  \<open>fs\<close>; \<open>hook\<close> holds what the caller gave, nil included, and \<open>OnMount\<close> may
  overwrite it with nil.
\<close>

record ('w, 'c) HookFs =
  Original :: string
  Mountpoint :: string
  FsName :: string
  fs :: "'w FileSystem"
  hook :: "('w, 'c) Hook option"

definition HookFs_GetAttr :: "('w, 'c) HookFs \<Rightarrow> string \<Rightarrow> ptr \<Rightarrow> 'w run \<Rightarrow> (ptr \<times> Status) outcome \<times> 'w run" where
  "HookFs_GetAttr h name context s0 =
    (let hookE = typeAssert asHookOnGetAttr (hook h);
         s1 = logf TraceLevel ''fs.GetAttr'' s0;
         ((prehooked, prehookCtx, prehookErr), s2) =
           (case hookE of
              Some hk \<Rightarrow> invoke (preEvent ''GetAttr'') (PreGetAttr hk name) s1
            | None \<Rightarrow> ((False, None, None), s1))
     in if prehooked then
          (Returned (nil, ToStatus prehookErr), logf DebugLevel ''GetAttr: Prehooked'' s2)
        else
          (let ((attr, lowerCode), s3) = invoke (FsCall ''GetAttr'' \<circ> case_prod RetAttr) (FileSystem.GetAttr (fs h) name context) s2;
               ((posthooked, posthookErr), s4) =
                 (case hookE of
                    Some hk \<Rightarrow> invoke (postEvent ''GetAttr'') (PostGetAttr hk lowerCode prehookCtx) s3
                  | None \<Rightarrow> ((False, None), s3))
           in if posthooked then
                (Returned (attr, ToStatus posthookErr), logf DebugLevel ''GetAttr: Posthooked'' s4)
              else (Returned (attr, lowerCode), s4)))"

definition HookFs_Chmod :: "('w, 'c) HookFs \<Rightarrow> string \<Rightarrow> 32 word \<Rightarrow> ptr \<Rightarrow> 'w run \<Rightarrow> Status outcome \<times> 'w run" where
  "HookFs_Chmod h name mode context s0 =
    (let hookE = typeAssert asHookOnChmod (hook h);
         s1 = logf TraceLevel ''fs.Chmod'' s0;
         ((prehooked, prehookCtx, prehookErr), s2) =
           (case hookE of
              Some hk \<Rightarrow> invoke (preEvent ''Chmod'') (PreChmod hk name mode) s1
            | None \<Rightarrow> ((False, None, None), s1))
     in if prehooked then
          (Returned (ToStatus prehookErr), logf DebugLevel ''Chmod: Prehooked'' s2)
        else
          (let (lowerCode, s3) = invoke (FsCall ''Chmod'' \<circ> RetStatus) (FileSystem.Chmod (fs h) name mode context) s2;
               ((posthooked, posthookErr), s4) =
                 (case hookE of
                    Some hk \<Rightarrow> invoke (postEvent ''Chmod'') (PostChmod hk lowerCode prehookCtx) s3
                  | None \<Rightarrow> ((False, None), s3))
           in if posthooked then
                (Returned (ToStatus posthookErr), logf DebugLevel ''Chmod: Posthooked'' s4)
              else (Returned lowerCode, s4)))"

definition HookFs_Chown :: "('w, 'c) HookFs \<Rightarrow> string \<Rightarrow> 32 word \<Rightarrow> 32 word \<Rightarrow> ptr \<Rightarrow> 'w run \<Rightarrow> Status outcome \<times> 'w run" where
  "HookFs_Chown h name uid gid context s0 =
    (let hookE = typeAssert asHookOnChown (hook h);
         s1 = logf TraceLevel ''fs.Chown'' s0;
         ((prehooked, prehookCtx, prehookErr), s2) =
           (case hookE of
              Some hk \<Rightarrow> invoke (preEvent ''Chown'') (PreChown hk name uid gid) s1
            | None \<Rightarrow> ((False, None, None), s1))
     in if prehooked then
          (Returned (ToStatus prehookErr), logf DebugLevel ''Chown: Prehooked'' s2)
        else
          (let (lowerCode, s3) = invoke (FsCall ''Chown'' \<circ> RetStatus) (FileSystem.Chown (fs h) name uid gid context) s2;
               ((posthooked, posthookErr), s4) =
                 (case hookE of
                    Some hk \<Rightarrow> invoke (postEvent ''Chown'') (PostChown hk lowerCode prehookCtx) s3
                  | None \<Rightarrow> ((False, None), s3))
           in if posthooked then
                (Returned (ToStatus posthookErr), logf DebugLevel ''Chown: Posthooked'' s4)
              else (Returned lowerCode, s4)))"

definition HookFs_Utimens :: "('w, 'c) HookFs \<Rightarrow> string \<Rightarrow> ptr \<Rightarrow> ptr \<Rightarrow> ptr \<Rightarrow> 'w run \<Rightarrow> Status outcome \<times> 'w run" where
  "HookFs_Utimens h name Atime Mtime context s0 =
    (let hookE = typeAssert asHookOnUtimens (hook h);
         s1 = logf TraceLevel ''fs.Utimens'' s0;
         ((prehooked, prehookCtx, prehookErr), s2) =
           (case hookE of
              Some hk \<Rightarrow> invoke (preEvent ''Utimens'') (PreUtimens hk name Atime Mtime) s1
            | None \<Rightarrow> ((False, None, None), s1))
     in if prehooked then
          (Returned (ToStatus prehookErr), logf DebugLevel ''Utimens: Prehooked'' s2)
        else
          (let (lowerCode, s3) = invoke (FsCall ''Utimens'' \<circ> RetStatus) (FileSystem.Utimens (fs h) name Atime Mtime context) s2;
               ((posthooked, posthookErr), s4) =
                 (case hookE of
                    Some hk \<Rightarrow> invoke (postEvent ''Utimens'') (PostUtimens hk lowerCode prehookCtx) s3
                  | None \<Rightarrow> ((False, None), s3))
           in if posthooked then
                (Returned (ToStatus posthookErr), logf DebugLevel ''Utimens: Posthooked'' s4)
              else (Returned lowerCode, s4)))"

definition HookFs_Truncate :: "('w, 'c) HookFs \<Rightarrow> string \<Rightarrow> 64 word \<Rightarrow> ptr \<Rightarrow> 'w run \<Rightarrow> Status outcome \<times> 'w run" where
  "HookFs_Truncate h name size' context s0 =
    (let hookE = typeAssert asHookOnTruncate (hook h);
         s1 = logf TraceLevel ''fs.Truncate'' s0;
         ((prehooked, prehookCtx, prehookErr), s2) =
           (case hookE of
              Some hk \<Rightarrow> invoke (preEvent ''Truncate'') (PreTruncate hk name size') s1
            | None \<Rightarrow> ((False, None, None), s1))
     in if prehooked then
          (Returned (ToStatus prehookErr), logf DebugLevel ''Truncate: Prehooked'' s2)
        else
          (let (lowerCode, s3) = invoke (FsCall ''Truncate'' \<circ> RetStatus) (FileSystem.Truncate (fs h) name size' context) s2;
               ((posthooked, posthookErr), s4) =
                 (case hookE of
                    Some hk \<Rightarrow> invoke (postEvent ''Truncate'') (PostTruncate hk lowerCode prehookCtx) s3
                  | None \<Rightarrow> ((False, None), s3))
           in if posthooked then
                (Returned (ToStatus posthookErr), logf DebugLevel ''Truncate: Posthooked'' s4)
              else (Returned lowerCode, s4)))"

definition HookFs_Access :: "('w, 'c) HookFs \<Rightarrow> string \<Rightarrow> 32 word \<Rightarrow> ptr \<Rightarrow> 'w run \<Rightarrow> Status outcome \<times> 'w run" where
  "HookFs_Access h name mode context s0 =
    (let hookE = typeAssert asHookOnAccess (hook h);
         s1 = logf TraceLevel ''fs.Access'' s0;
         ((prehooked, prehookCtx, prehookErr), s2) =
           (case hookE of
              Some hk \<Rightarrow> invoke (preEvent ''Access'') (PreAccess hk name mode) s1
            | None \<Rightarrow> ((False, None, None), s1))
     in if prehooked then
          (Returned (ToStatus prehookErr), logf DebugLevel ''Access: Prehooked'' s2)
        else
          (let (lowerCode, s3) = invoke (FsCall ''Access'' \<circ> RetStatus) (FileSystem.Access (fs h) name mode context) s2;
               ((posthooked, posthookErr), s4) =
                 (case hookE of
                    Some hk \<Rightarrow> invoke (postEvent ''Access'') (PostAccess hk lowerCode prehookCtx) s3
                  | None \<Rightarrow> ((False, None), s3))
           in if posthooked then
                (Returned (ToStatus posthookErr), logf DebugLevel ''Access: Posthooked'' s4)
              else (Returned lowerCode, s4)))"

definition HookFs_Link :: "('w, 'c) HookFs \<Rightarrow> string \<Rightarrow> string \<Rightarrow> ptr \<Rightarrow> 'w run \<Rightarrow> Status outcome \<times> 'w run" where
  "HookFs_Link h oldName newName context s0 =
    (let hookE = typeAssert asHookOnLink (hook h);
         s1 = logf TraceLevel ''fs.Link'' s0;
         ((prehooked, prehookCtx, prehookErr), s2) =
           (case hookE of
              Some hk \<Rightarrow> invoke (preEvent ''Link'') (PreLink hk oldName newName) s1
            | None \<Rightarrow> ((False, None, None), s1))
     in if prehooked then
          (Returned (ToStatus prehookErr), logf DebugLevel ''Link: Prehooked'' s2)
        else
          (let (lowerCode, s3) = invoke (FsCall ''Link'' \<circ> RetStatus) (FileSystem.Link (fs h) oldName newName context) s2;
               ((posthooked, posthookErr), s4) =
                 (case hookE of
                    Some hk \<Rightarrow> invoke (postEvent ''Link'') (PostLink hk lowerCode prehookCtx) s3
                  | None \<Rightarrow> ((False, None), s3))
           in if posthooked then
                (Returned (ToStatus posthookErr), logf DebugLevel ''Link: Posthooked'' s4)
              else (Returned lowerCode, s4)))"

definition HookFs_Mkdir :: "('w, 'c) HookFs \<Rightarrow> string \<Rightarrow> 32 word \<Rightarrow> ptr \<Rightarrow> 'w run \<Rightarrow> Status outcome \<times> 'w run" where
  "HookFs_Mkdir h name mode context s0 =
    (let hookE = typeAssert asHookOnMkdir (hook h);
         s1 = logf TraceLevel ''fs.Mkdir'' s0;
         ((prehooked, prehookCtx, prehookErr), s2) =
           (case hookE of
              Some hk \<Rightarrow> invoke (preEvent ''Mkdir'') (PreMkdir hk name mode) s1
            | None \<Rightarrow> ((False, None, None), s1))
     in if prehooked then
          (let s3 = logf DebugLevel ''Mkdir: Prehooked'' s2
           in if prehookErr = None then
                (Exited, logf FatalLevel ''Mkdir is prehooked, but did not returned an error. h is very strange.'' s3)
              else (Returned (ToStatus prehookErr), s3))
        else
          (let (lowerCode, s3) = invoke (FsCall ''Mkdir'' \<circ> RetStatus) (FileSystem.Mkdir (fs h) name mode context) s2;
               ((posthooked, posthookErr), s4) =
                 (case hookE of
                    Some hk \<Rightarrow> invoke (postEvent ''Mkdir'') (PostMkdir hk lowerCode prehookCtx) s3
                  | None \<Rightarrow> ((False, None), s3))
           in if posthooked then
                (Returned (ToStatus posthookErr), logf DebugLevel ''Mkdir: Posthooked'' s4)
              else (Returned lowerCode, s4)))"

definition HookFs_Mknod :: "('w, 'c) HookFs \<Rightarrow> string \<Rightarrow> 32 word \<Rightarrow> 32 word \<Rightarrow> ptr \<Rightarrow> 'w run \<Rightarrow> Status outcome \<times> 'w run" where
  "HookFs_Mknod h name mode dev context s0 =
    (let hookE = typeAssert asHookOnMknod (hook h);
         s1 = logf TraceLevel ''fs.Mknod'' s0;
         ((prehooked, prehookCtx, prehookErr), s2) =
           (case hookE of
              Some hk \<Rightarrow> invoke (preEvent ''Mknod'') (PreMknod hk name mode dev) s1
            | None \<Rightarrow> ((False, None, None), s1))
     in if prehooked then
          (Returned (ToStatus prehookErr), logf DebugLevel ''Mknod: Prehooked'' s2)
        else
          (let (lowerCode, s3) = invoke (FsCall ''Mknod'' \<circ> RetStatus) (FileSystem.Mknod (fs h) name mode dev context) s2;
               ((posthooked, posthookErr), s4) =
                 (case hookE of
                    Some hk \<Rightarrow> invoke (postEvent ''Mknod'') (PostMknod hk lowerCode prehookCtx) s3
                  | None \<Rightarrow> ((False, None), s3))
           in if posthooked then
                (Returned (ToStatus posthookErr), logf DebugLevel ''Mknod: Posthooked'' s4)
              else (Returned lowerCode, s4)))"

definition HookFs_Rename :: "('w, 'c) HookFs \<Rightarrow> string \<Rightarrow> string \<Rightarrow> ptr \<Rightarrow> 'w run \<Rightarrow> Status outcome \<times> 'w run" where
  "HookFs_Rename h oldName newName context s0 =
    (let hookE = typeAssert asHookOnRename (hook h);
         s1 = logf TraceLevel ''fs.Rename'' s0;
         ((prehooked, prehookCtx, prehookErr), s2) =
           (case hookE of
              Some hk \<Rightarrow> invoke (preEvent ''Rename'') (PreRename hk oldName newName) s1
            | None \<Rightarrow> ((False, None, None), s1))
     in if prehooked then
          (Returned (ToStatus prehookErr), logf DebugLevel ''Rename: Prehooked'' s2)
        else
          (let (lowerCode, s3) = invoke (FsCall ''Rename'' \<circ> RetStatus) (FileSystem.Rename (fs h) oldName newName context) s2;
               ((posthooked, posthookErr), s4) =
                 (case hookE of
                    Some hk \<Rightarrow> invoke (postEvent ''Rename'') (PostRename hk lowerCode prehookCtx) s3
                  | None \<Rightarrow> ((False, None), s3))
           in if posthooked then
                (Returned (ToStatus posthookErr), logf DebugLevel ''Rename: Posthooked'' s4)
              else (Returned lowerCode, s4)))"

definition HookFs_Rmdir :: "('w, 'c) HookFs \<Rightarrow> string \<Rightarrow> ptr \<Rightarrow> 'w run \<Rightarrow> Status outcome \<times> 'w run" where
  "HookFs_Rmdir h name context s0 =
    (let hookE = typeAssert asHookOnRmdir (hook h);
         s1 = logf TraceLevel ''fs.Rmdir'' s0;
         ((prehooked, prehookCtx, prehookErr), s2) =
           (case hookE of
              Some hk \<Rightarrow> invoke (preEvent ''Rmdir'') (PreRmdir hk name) s1
            | None \<Rightarrow> ((False, None, None), s1))
     in if prehooked then
          (let s3 = logf DebugLevel ''Rmdir: Prehooked'' s2
           in if prehookErr = None then
                (Exited, logf FatalLevel ''Rmdir is prehooked, but did not returned an error. h is very strange.'' s3)
              else (Returned (ToStatus prehookErr), s3))
        else
          (let (lowerCode, s3) = invoke (FsCall ''Rmdir'' \<circ> RetStatus) (FileSystem.Rmdir (fs h) name context) s2;
               ((posthooked, posthookErr), s4) =
                 (case hookE of
                    Some hk \<Rightarrow> invoke (postEvent ''Rmdir'') (PostRmdir hk lowerCode prehookCtx) s3
                  | None \<Rightarrow> ((False, None), s3))
           in if posthooked then
                (Returned (ToStatus posthookErr), logf DebugLevel ''Rmdir: Posthooked'' s4)
              else (Returned lowerCode, s4)))"

definition HookFs_Unlink :: "('w, 'c) HookFs \<Rightarrow> string \<Rightarrow> ptr \<Rightarrow> 'w run \<Rightarrow> Status outcome \<times> 'w run" where
  "HookFs_Unlink h name context s0 =
    (let hookE = typeAssert asHookOnUnlink (hook h);
         s1 = logf TraceLevel ''fs.Unlink'' s0;
         ((prehooked, prehookCtx, prehookErr), s2) =
           (case hookE of
              Some hk \<Rightarrow> invoke (preEvent ''Unlink'') (PreUnlink hk name) s1
            | None \<Rightarrow> ((False, None, None), s1))
     in if prehooked then
          (Returned (ToStatus prehookErr), logf DebugLevel ''Unlink: Prehooked'' s2)
        else
          (let (lowerCode, s3) = invoke (FsCall ''Unlink'' \<circ> RetStatus) (FileSystem.Unlink (fs h) name context) s2;
               ((posthooked, posthookErr), s4) =
                 (case hookE of
                    Some hk \<Rightarrow> invoke (postEvent ''Unlink'') (PostUnlink hk lowerCode prehookCtx) s3
                  | None \<Rightarrow> ((False, None), s3))
           in if posthooked then
                (Returned (ToStatus posthookErr), logf DebugLevel ''Unlink: Posthooked'' s4)
              else (Returned lowerCode, s4)))"

definition HookFs_GetXAttr :: "('w, 'c) HookFs \<Rightarrow> string \<Rightarrow> string \<Rightarrow> ptr \<Rightarrow> 'w run \<Rightarrow> (byte list \<times> Status) outcome \<times> 'w run" where
  "HookFs_GetXAttr h name attribute context s0 =
    (let hookE = typeAssert asHookOnGetXAttr (hook h);
         s1 = logf TraceLevel ''fs.CetXAttr'' s0;
         ((prehooked, prehookCtx, prehookErr), s2) =
           (case hookE of
              Some hk \<Rightarrow> invoke (preEvent ''GetXAttr'') (PreGetXAttr hk name attribute) s1
            | None \<Rightarrow> ((False, None, None), s1))
     in if prehooked then
          (Returned ([], ToStatus prehookErr), logf DebugLevel ''GetXAttr: Prehooked'' s2)
        else
          (let ((attr, lowerCode), s3) = invoke (FsCall ''GetXAttr'' \<circ> case_prod RetBytes) (FileSystem.GetXAttr (fs h) name attribute context) s2;
               ((posthooked, posthookErr), s4) =
                 (case hookE of
                    Some hk \<Rightarrow> invoke (postEvent ''GetXAttr'') (PostGetXAttr hk lowerCode prehookCtx) s3
                  | None \<Rightarrow> ((False, None), s3))
           in if posthooked then
                (Returned (attr, ToStatus posthookErr), logf DebugLevel ''GetXAttr: Posthooked'' s4)
              else (Returned (attr, lowerCode), s4)))"

definition HookFs_ListXAttr :: "('w, 'c) HookFs \<Rightarrow> string \<Rightarrow> ptr \<Rightarrow> 'w run \<Rightarrow> (string list \<times> Status) outcome \<times> 'w run" where
  "HookFs_ListXAttr h name context s0 =
    (let hookE = typeAssert asHookOnListXAttr (hook h);
         s1 = logf TraceLevel ''fs.ListXAttr'' s0;
         ((prehooked, prehookCtx, prehookErr), s2) =
           (case hookE of
              Some hk \<Rightarrow> invoke (preEvent ''ListXAttr'') (PreListXAttr hk name) s1
            | None \<Rightarrow> ((False, None, None), s1))
     in if prehooked then
          (Returned ([], ToStatus prehookErr), logf DebugLevel ''ListXAttr: Prehooked'' s2)
        else
          (let ((attr, lowerCode), s3) = invoke (FsCall ''ListXAttr'' \<circ> case_prod RetStrings) (FileSystem.ListXAttr (fs h) name context) s2;
               ((posthooked, posthookErr), s4) =
                 (case hookE of
                    Some hk \<Rightarrow> invoke (postEvent ''ListXAttr'') (PostListXAttr hk lowerCode prehookCtx) s3
                  | None \<Rightarrow> ((False, None), s3))
           in if posthooked then
                (Returned (attr, ToStatus posthookErr), logf DebugLevel ''ListXAttr: Posthooked'' s4)
              else (Returned (attr, lowerCode), s4)))"

definition HookFs_RemoveXAttr :: "('w, 'c) HookFs \<Rightarrow> string \<Rightarrow> string \<Rightarrow> ptr \<Rightarrow> 'w run \<Rightarrow> Status outcome \<times> 'w run" where
  "HookFs_RemoveXAttr h name attr context s0 =
    (let hookE = typeAssert asHookOnRemoveXAttr (hook h);
         s1 = logf TraceLevel ''fs.RemoveXAttr'' s0;
         ((prehooked, prehookCtx, prehookErr), s2) =
           (case hookE of
              Some hk \<Rightarrow> invoke (preEvent ''RemoveXAttr'') (PreRemoveXAttr hk name attr) s1
            | None \<Rightarrow> ((False, None, None), s1))
     in if prehooked then
          (Returned (ToStatus prehookErr), logf DebugLevel ''RemoveXAttr: Prehooked'' s2)
        else
          (let (lowerCode, s3) = invoke (FsCall ''RemoveXAttr'' \<circ> RetStatus) (FileSystem.RemoveXAttr (fs h) name attr context) s2;
               ((posthooked, posthookErr), s4) =
                 (case hookE of
                    Some hk \<Rightarrow> invoke (postEvent ''RemoveXAttr'') (PostRemoveXAttr hk lowerCode prehookCtx) s3
                  | None \<Rightarrow> ((False, None), s3))
           in if posthooked then
                (Returned (ToStatus posthookErr), logf DebugLevel ''RemoveXAttr: Posthooked'' s4)
              else (Returned lowerCode, s4)))"

definition HookFs_SetXAttr :: "('w, 'c) HookFs \<Rightarrow> string \<Rightarrow> string \<Rightarrow> byte list \<Rightarrow> int \<Rightarrow> ptr \<Rightarrow> 'w run \<Rightarrow> Status outcome \<times> 'w run" where
  "HookFs_SetXAttr h name attr data flags context s0 =
    (let hookE = typeAssert asHookOnSetXAttr (hook h);
         s1 = logf TraceLevel ''fs.SetXAttr'' s0;
         ((prehooked, prehookCtx, prehookErr), s2) =
           (case hookE of
              Some hk \<Rightarrow> invoke (preEvent ''SetXAttr'') (PreSetXAttr hk name attr data flags) s1
            | None \<Rightarrow> ((False, None, None), s1))
     in if prehooked then
          (Returned (ToStatus prehookErr), logf DebugLevel ''SetXAttr: Prehooked'' s2)
        else
          (let (lowerCode, s3) = invoke (FsCall ''SetXAttr'' \<circ> RetStatus) (FileSystem.SetXAttr (fs h) name attr data flags context) s2;
               ((posthooked, posthookErr), s4) =
                 (case hookE of
                    Some hk \<Rightarrow> invoke (postEvent ''SetXAttr'') (PostSetXAttr hk lowerCode prehookCtx) s3
                  | None \<Rightarrow> ((False, None), s3))
           in if posthooked then
                (Returned (ToStatus posthookErr), logf DebugLevel ''SetXAttr: Posthooked'' s4)
              else (Returned lowerCode, s4)))"

definition HookFs_Open :: "('w, 'c) HookFs \<Rightarrow> string \<Rightarrow> 32 word \<Rightarrow> ptr \<Rightarrow> 'w run \<Rightarrow> (('w, 'c) hookFile option \<times> Status) outcome \<times> 'w run" where
  "HookFs_Open h name flags context s0 =
    (let hookE = typeAssert asHookOnOpen (hook h);
         s1 = logf TraceLevel ''fs.Open'' s0;
         ((prehooked, prehookCtx, prehookErr), s2) =
           (case hookE of
              Some hk \<Rightarrow> invoke (preEvent ''Open'') (PreOpen hk name flags) s1
            | None \<Rightarrow> ((False, None, None), s1))
     in if prehooked then
          (let s3 = logf DebugLevel ''Open: Prehooked'' s2
           in if prehookErr = None then
                (Exited, logf FatalLevel ''Open is prehooked, but did not returned an error. h is very strange.'' s3)
              else (Returned (None, ToStatus prehookErr), s3))
        else
          (let ((lowerFile, lowerCode), s3) = invoke (FsCall ''Open'' \<circ> case_prod RetFile) (FileSystem.Open (fs h) name flags context) s2;
               ((hFile, hErr), s4) = newHookFile lowerFile name (hook h) s3
           in if hErr \<noteq> None then
                (Panicked, logf PanicLevel ''NewHookFile() should not cause an error'' s4)
              else
           let
               ((posthooked, posthookErr), s5) =
                 (case hookE of
                    Some hk \<Rightarrow> invoke (postEvent ''Open'') (PostOpen hk lowerCode prehookCtx) s4
                  | None \<Rightarrow> ((False, None), s4))
           in if posthooked then
                (Returned (Some hFile, ToStatus posthookErr), logf DebugLevel ''Open: Posthooked'' s5)
              else (Returned (Some hFile, lowerCode), s5)))"

definition HookFs_Create :: "('w, 'c) HookFs \<Rightarrow> string \<Rightarrow> 32 word \<Rightarrow> 32 word \<Rightarrow> ptr \<Rightarrow> 'w run \<Rightarrow> (('w, 'c) hookFile option \<times> Status) outcome \<times> 'w run" where
  "HookFs_Create h name flags mode context s0 =
    (let hookE = typeAssert asHookOnCreate (hook h);
         s1 = logf TraceLevel ''fs.Create'' s0;
         ((prehooked, prehookCtx, prehookErr), s2) =
           (case hookE of
              Some hk \<Rightarrow> invoke (preEvent ''Create'') (PreCreate hk name flags mode) s1
            | None \<Rightarrow> ((False, None, None), s1))
     in if prehooked then
          (Returned (None, ToStatus prehookErr), logf DebugLevel ''Create: Prehooked'' s2)
        else
          (let ((lowerFile, lowerCode), s3) = invoke (FsCall ''Create'' \<circ> case_prod RetFile) (FileSystem.Create (fs h) name flags mode context) s2;
               ((hFile, hErr), s4) = newHookFile lowerFile name (hook h) s3
           in if hErr \<noteq> None then
                (Panicked, logf PanicLevel ''NewHookFile() should not cause an error'' s4)
              else
           let
               ((posthooked, posthookErr), s5) =
                 (case hookE of
                    Some hk \<Rightarrow> invoke (postEvent ''Create'') (PostCreate hk lowerCode prehookCtx) s4
                  | None \<Rightarrow> ((False, None), s4))
           in if posthooked then
                (Returned (Some hFile, ToStatus posthookErr), logf DebugLevel ''Create: Posthooked'' s5)
              else (Returned (Some hFile, lowerCode), s5)))"

definition HookFs_OpenDir :: "('w, 'c) HookFs \<Rightarrow> string \<Rightarrow> ptr \<Rightarrow> 'w run \<Rightarrow> (DirEntry list \<times> Status) outcome \<times> 'w run" where
  "HookFs_OpenDir h name context s0 =
    (let hookE = typeAssert asHookOnOpenDir (hook h);
         s1 = logf TraceLevel ''fs.OpenDir'' s0;
         ((prehooked, prehookCtx, prehookErr), s2) =
           (case hookE of
              Some hk \<Rightarrow> invoke (preEvent ''OpenDir'') (PreOpenDir hk name) s1
            | None \<Rightarrow> ((False, None, None), s1))
     in if prehooked then
          (let s3 = logf DebugLevel ''OpenDir: Prehooked'' s2
           in if prehookErr = None then
                (Exited, logf FatalLevel ''OpenDir is prehooked, but did not returned an error. h is very strange.'' s3)
              else (Returned ([], ToStatus prehookErr), s3))
        else
          (let ((lowerEnts, lowerCode), s3) = invoke (FsCall ''OpenDir'' \<circ> case_prod RetEntries) (FileSystem.OpenDir (fs h) name context) s2;
               ((posthooked, posthookErr), s4) =
                 (case hookE of
                    Some hk \<Rightarrow> invoke (postEvent ''OpenDir'') (PostOpenDir hk lowerCode prehookCtx) s3
                  | None \<Rightarrow> ((False, None), s3))
           in if posthooked then
                (Returned (lowerEnts, ToStatus posthookErr), logf DebugLevel ''OpenDir: Posthooked'' s4)
              else (Returned (lowerEnts, lowerCode), s4)))"

definition HookFs_Symlink :: "('w, 'c) HookFs \<Rightarrow> string \<Rightarrow> string \<Rightarrow> ptr \<Rightarrow> 'w run \<Rightarrow> Status outcome \<times> 'w run" where
  "HookFs_Symlink h value linkName context s0 =
    (let hookE = typeAssert asHookOnSymlink (hook h);
         s1 = logf TraceLevel ''fs.Symlink'' s0;
         ((prehooked, prehookCtx, prehookErr), s2) =
           (case hookE of
              Some hk \<Rightarrow> invoke (preEvent ''Symlink'') (PreSymlink hk value linkName) s1
            | None \<Rightarrow> ((False, None, None), s1))
     in if prehooked then
          (Returned (ToStatus prehookErr), logf DebugLevel ''Symlink: Prehooked'' s2)
        else
          (let (lowerCode, s3) = invoke (FsCall ''Symlink'' \<circ> RetStatus) (FileSystem.Symlink (fs h) value linkName context) s2;
               ((posthooked, posthookErr), s4) =
                 (case hookE of
                    Some hk \<Rightarrow> invoke (postEvent ''Symlink'') (PostSymlink hk lowerCode prehookCtx) s3
                  | None \<Rightarrow> ((False, None), s3))
           in if posthooked then
                (Returned (ToStatus posthookErr), logf DebugLevel ''Symlink: Posthooked'' s4)
              else (Returned lowerCode, s4)))"

definition HookFs_Readlink :: "('w, 'c) HookFs \<Rightarrow> string \<Rightarrow> ptr \<Rightarrow> 'w run \<Rightarrow> (string \<times> Status) outcome \<times> 'w run" where
  "HookFs_Readlink h name context s0 =
    (let hookE = typeAssert asHookOnReadlink (hook h);
         s1 = logf TraceLevel ''fs.Readlink'' s0;
         ((prehooked, prehookCtx, prehookErr), s2) =
           (case hookE of
              Some hk \<Rightarrow> invoke (preEvent ''Readlink'') (PreReadlink hk name) s1
            | None \<Rightarrow> ((False, None, None), s1))
     in if prehooked then
          (Returned ('''', ToStatus prehookErr), logf DebugLevel ''Readlink: Prehooked'' s2)
        else
          (let ((link, lowerCode), s3) = invoke (FsCall ''Readlink'' \<circ> case_prod RetString) (FileSystem.Readlink (fs h) name context) s2;
               ((posthooked, posthookErr), s4) =
                 (case hookE of
                    Some hk \<Rightarrow> invoke (postEvent ''Readlink'') (PostReadlink hk lowerCode prehookCtx) s3
                  | None \<Rightarrow> ((False, None), s3))
           in if posthooked then
                (Returned (link, ToStatus posthookErr), logf DebugLevel ''Readlink: Posthooked'' s4)
              else (Returned (link, lowerCode), s4)))"

definition HookFs_StatFs :: "('w, 'c) HookFs \<Rightarrow> string \<Rightarrow> 'w run \<Rightarrow> ptr outcome \<times> 'w run" where
  "HookFs_StatFs h name s0 =
    (let hookE = typeAssert asHookOnStatFs (hook h);
         s1 = logf TraceLevel ''fs.StatFs'' s0;
         ((prehooked, prehookCtx, prehookErr), s2) =
           (case hookE of
              Some hk \<Rightarrow> invoke (preEvent ''StatFs'') (PreStatFs hk name) s1
            | None \<Rightarrow> ((False, None, None), s1))
     in if prehooked then
          (Returned nil, logf DebugLevel ''StatFs: Prehooked'' s2)
        else
          (let (out, s3) = invoke (FsCall ''StatFs'' \<circ> RetStatfs) (FileSystem.StatFs (fs h) name) s2;
               ((posthooked, posthookErr), s4) =
                 (case hookE of
                    Some hk \<Rightarrow> invoke (postEvent ''StatFs'') (PostStatFs hk prehookCtx) s3
                  | None \<Rightarrow> ((False, None), s3))
           in if posthooked then
                (Returned out, logf DebugLevel ''StatFs: Posthooked'' s4)
              else (Returned out, s4)))"

text \<open>
  \<open>OnMount\<close> is the one method that assigns to a field of its receiver, so it returns
  the receiver as it leaves it. \<open>log.Error(err)\<close> prints the text of the error.
\<close>

definition HookFs_OnMount :: "('w, 'c) HookFs \<Rightarrow> ptr \<Rightarrow> 'w run \<Rightarrow> (unit outcome \<times> ('w, 'c) HookFs) \<times> 'w run" where
  "HookFs_OnMount h nodeFs s0 =
    (let s1 = logf TraceLevel ''fs.OnMount'' s0;
         (u, s2) = invoke (\<lambda>u. FsCall ''OnMount'' RetUnit) (FileSystem.OnMount (fs h) nodeFs) s1
     in case typeAssert asHookWithInit (hook h) of
          None \<Rightarrow> ((Returned (), h), s2)
        | Some hk \<Rightarrow>
            (let (err, s3) = invoke InitHook (Init hk) s2
             in case err of
                  Some e \<Rightarrow>
                    ((Returned (), h\<lparr>hook := None\<rparr>),
                     logf WarnLevel ''Disabling hook'' (logf ErrorLevel (errText e) s3))
                | None \<Rightarrow> ((Returned (), h), s3)))"

definition HookFs_OnUnmount :: "('w, 'c) HookFs \<Rightarrow> 'w run \<Rightarrow> unit outcome \<times> 'w run" where
  "HookFs_OnUnmount h s0 =
    (let s1 = logf TraceLevel ''fs.OnUnmount'' s0;
         (u, s2) = invoke (\<lambda>u. FsCall ''OnUnmount'' RetUnit) (FileSystem.OnUnmount (fs h)) s1
     in (Returned (), s2))"

subsection \<open>One request of go-fuse\<close>

text \<open>
  go-fuse delivers a request by calling the method of its name, on the hooked file
  system or on a hooked file it was given by \<open>Open\<close> or \<open>Create\<close>. A request is the
  method with its arguments; \<open>serve\<close> calls it and packs the result.
\<close>

datatype fscall =
    Fs_GetAttr string ptr
  | Fs_Chmod string "32 word" ptr
  | Fs_Chown string "32 word" "32 word" ptr
  | Fs_Utimens string ptr ptr ptr
  | Fs_Truncate string "64 word" ptr
  | Fs_Access string "32 word" ptr
  | Fs_Link string string ptr
  | Fs_Mkdir string "32 word" ptr
  | Fs_Mknod string "32 word" "32 word" ptr
  | Fs_Rename string string ptr
  | Fs_Rmdir string ptr
  | Fs_Unlink string ptr
  | Fs_GetXAttr string string ptr
  | Fs_ListXAttr string ptr
  | Fs_RemoveXAttr string string ptr
  | Fs_SetXAttr string string "byte list" int ptr
  | Fs_Open string "32 word" ptr
  | Fs_Create string "32 word" "32 word" ptr
  | Fs_OpenDir string ptr
  | Fs_Symlink string string ptr
  | Fs_Readlink string ptr
  | Fs_StatFs string

datatype filecall =
    File_Read "byte list" "64 word"
  | File_Write "byte list" "64 word"
  | File_Flush 
  | File_Release 
  | File_Fsync int
  | File_Truncate "64 word"
  | File_GetAttr ptr
  | File_Chown "32 word" "32 word"
  | File_Chmod "32 word"
  | File_Utimens ptr ptr
  | File_Allocate "64 word" "64 word" "32 word"
  | File_GetLk "64 word" ptr "32 word" ptr
  | File_SetLk "64 word" ptr "32 word"
  | File_SetLkw "64 word" ptr "32 word"

datatype ('w, 'c) call =
    OnFs "('w, 'c) HookFs" fscall
  | OnFile "('w, 'c) hookFile" filecall

type_synonym ('w, 'c) reply = "(('w, 'c) hookFile option, 'w) ret"

definition answer :: "('a \<Rightarrow> 'b) \<Rightarrow> 'a outcome \<times> 's \<Rightarrow> 'b outcome \<times> 's" where
  "answer f r = (map_outcome f (fst r), snd r)"

fun serveFs :: "('w, 'c) HookFs \<Rightarrow> fscall \<Rightarrow> 'w run \<Rightarrow> ('w, 'c) reply outcome \<times> 'w run" where
  "serveFs h (Fs_GetAttr name context) s = answer (case_prod RetAttr) (HookFs_GetAttr h name context s)"
| "serveFs h (Fs_Chmod name mode context) s = answer (RetStatus) (HookFs_Chmod h name mode context s)"
| "serveFs h (Fs_Chown name uid gid context) s = answer (RetStatus) (HookFs_Chown h name uid gid context s)"
| "serveFs h (Fs_Utimens name Atime Mtime context) s = answer (RetStatus) (HookFs_Utimens h name Atime Mtime context s)"
| "serveFs h (Fs_Truncate name size' context) s = answer (RetStatus) (HookFs_Truncate h name size' context s)"
| "serveFs h (Fs_Access name mode context) s = answer (RetStatus) (HookFs_Access h name mode context s)"
| "serveFs h (Fs_Link oldName newName context) s = answer (RetStatus) (HookFs_Link h oldName newName context s)"
| "serveFs h (Fs_Mkdir name mode context) s = answer (RetStatus) (HookFs_Mkdir h name mode context s)"
| "serveFs h (Fs_Mknod name mode dev context) s = answer (RetStatus) (HookFs_Mknod h name mode dev context s)"
| "serveFs h (Fs_Rename oldName newName context) s = answer (RetStatus) (HookFs_Rename h oldName newName context s)"
| "serveFs h (Fs_Rmdir name context) s = answer (RetStatus) (HookFs_Rmdir h name context s)"
| "serveFs h (Fs_Unlink name context) s = answer (RetStatus) (HookFs_Unlink h name context s)"
| "serveFs h (Fs_GetXAttr name attribute context) s = answer (case_prod RetBytes) (HookFs_GetXAttr h name attribute context s)"
| "serveFs h (Fs_ListXAttr name context) s = answer (case_prod RetStrings) (HookFs_ListXAttr h name context s)"
| "serveFs h (Fs_RemoveXAttr name attr context) s = answer (RetStatus) (HookFs_RemoveXAttr h name attr context s)"
| "serveFs h (Fs_SetXAttr name attr data flags context) s = answer (RetStatus) (HookFs_SetXAttr h name attr data flags context s)"
| "serveFs h (Fs_Open name flags context) s = answer (case_prod RetFile) (HookFs_Open h name flags context s)"
| "serveFs h (Fs_Create name flags mode context) s = answer (case_prod RetFile) (HookFs_Create h name flags mode context s)"
| "serveFs h (Fs_OpenDir name context) s = answer (case_prod RetEntries) (HookFs_OpenDir h name context s)"
| "serveFs h (Fs_Symlink value linkName context) s = answer (RetStatus) (HookFs_Symlink h value linkName context s)"
| "serveFs h (Fs_Readlink name context) s = answer (case_prod RetString) (HookFs_Readlink h name context s)"
| "serveFs h (Fs_StatFs name) s = answer (RetStatfs) (HookFs_StatFs h name s)"

fun serveFile :: "('w, 'c) hookFile \<Rightarrow> filecall \<Rightarrow> 'w run \<Rightarrow> ('w, 'c) reply outcome \<times> 'w run" where
  "serveFile h (File_Read dest off) s = answer (case_prod RetRead) (hookFile_Read h dest off s)"
| "serveFile h (File_Write data off) s = answer (case_prod RetWritten) (hookFile_Write h data off s)"
| "serveFile h (File_Flush) s = answer (RetStatus) (hookFile_Flush h s)"
| "serveFile h (File_Release) s = answer ((\<lambda>_. RetUnit)) (hookFile_Release h s)"
| "serveFile h (File_Fsync flags) s = answer (RetStatus) (hookFile_Fsync h flags s)"
| "serveFile h (File_Truncate size') s = answer (RetStatus) (hookFile_Truncate h size' s)"
| "serveFile h (File_GetAttr out) s = answer (RetStatus) (hookFile_GetAttr h out s)"
| "serveFile h (File_Chown uid gid) s = answer (RetStatus) (hookFile_Chown h uid gid s)"
| "serveFile h (File_Chmod perms) s = answer (RetStatus) (hookFile_Chmod h perms s)"
| "serveFile h (File_Utimens atime mtime) s = answer (RetStatus) (hookFile_Utimens h atime mtime s)"
| "serveFile h (File_Allocate off size' mode) s = answer (RetStatus) (hookFile_Allocate h off size' mode s)"
| "serveFile h (File_GetLk owner lk flags out) s = answer (RetStatus) (hookFile_GetLk h owner lk flags out s)"
| "serveFile h (File_SetLk owner lk flags) s = answer (RetStatus) (hookFile_SetLk h owner lk flags s)"
| "serveFile h (File_SetLkw owner lk flags) s = answer (RetStatus) (hookFile_SetLkw h owner lk flags s)"

fun serve :: "('w, 'c) call \<Rightarrow> 'w run \<Rightarrow> ('w, 'c) reply outcome \<times> 'w run" where
  "serve (OnFs h r) s = serveFs h r s"
| "serve (OnFile h r) s = serveFile h r s"

text \<open>The calls a request adds to the record, and what it returns.\<close>

definition since :: "'w run \<Rightarrow> 'w run \<Rightarrow> 'w event list" where
  "since s s' = drop (length (trace s)) (trace s')"

definition events :: "('w, 'c) call \<Rightarrow> 'w run \<Rightarrow> 'w event list" where
  "events c s = since s (snd (serve c s))"

definition result :: "('w, 'c) call \<Rightarrow> 'w run \<Rightarrow> ('w, 'c) reply outcome" where
  "result c s = fst (serve c s)"

fun isDelegate :: "'w event \<Rightarrow> bool" where
  "isDelegate (FsCall m r) = True"
| "isDelegate (FileCall m r) = True"
| "isDelegate (ResultCall m r) = True"
| "isDelegate e = False"

fun isPost :: "'w event \<Rightarrow> bool" where
  "isPost (PostHook m b hooked err) = True"
| "isPost e = False"

fun isHook :: "'w event \<Rightarrow> bool" where
  "isHook (PreHook m b hooked err) = True"
| "isHook (PostHook m b hooked err) = True"
| "isHook (InitHook err) = True"
| "isHook e = False"

text \<open>
  Whether the hook of the receiver implements the interface of the request: the type
  assertion in the first line of each method.
\<close>

fun implementsFs :: "('w, 'c) Hook \<Rightarrow> fscall \<Rightarrow> bool" where
  "implementsFs hv (Fs_GetAttr name context) = (asHookOnGetAttr hv \<noteq> None)"
| "implementsFs hv (Fs_Chmod name mode context) = (asHookOnChmod hv \<noteq> None)"
| "implementsFs hv (Fs_Chown name uid gid context) = (asHookOnChown hv \<noteq> None)"
| "implementsFs hv (Fs_Utimens name Atime Mtime context) = (asHookOnUtimens hv \<noteq> None)"
| "implementsFs hv (Fs_Truncate name size' context) = (asHookOnTruncate hv \<noteq> None)"
| "implementsFs hv (Fs_Access name mode context) = (asHookOnAccess hv \<noteq> None)"
| "implementsFs hv (Fs_Link oldName newName context) = (asHookOnLink hv \<noteq> None)"
| "implementsFs hv (Fs_Mkdir name mode context) = (asHookOnMkdir hv \<noteq> None)"
| "implementsFs hv (Fs_Mknod name mode dev context) = (asHookOnMknod hv \<noteq> None)"
| "implementsFs hv (Fs_Rename oldName newName context) = (asHookOnRename hv \<noteq> None)"
| "implementsFs hv (Fs_Rmdir name context) = (asHookOnRmdir hv \<noteq> None)"
| "implementsFs hv (Fs_Unlink name context) = (asHookOnUnlink hv \<noteq> None)"
| "implementsFs hv (Fs_GetXAttr name attribute context) = (asHookOnGetXAttr hv \<noteq> None)"
| "implementsFs hv (Fs_ListXAttr name context) = (asHookOnListXAttr hv \<noteq> None)"
| "implementsFs hv (Fs_RemoveXAttr name attr context) = (asHookOnRemoveXAttr hv \<noteq> None)"
| "implementsFs hv (Fs_SetXAttr name attr data flags context) = (asHookOnSetXAttr hv \<noteq> None)"
| "implementsFs hv (Fs_Open name flags context) = (asHookOnOpen hv \<noteq> None)"
| "implementsFs hv (Fs_Create name flags mode context) = (asHookOnCreate hv \<noteq> None)"
| "implementsFs hv (Fs_OpenDir name context) = (asHookOnOpenDir hv \<noteq> None)"
| "implementsFs hv (Fs_Symlink value linkName context) = (asHookOnSymlink hv \<noteq> None)"
| "implementsFs hv (Fs_Readlink name context) = (asHookOnReadlink hv \<noteq> None)"
| "implementsFs hv (Fs_StatFs name) = (asHookOnStatFs hv \<noteq> None)"

fun implementsFile :: "('w, 'c) Hook \<Rightarrow> filecall \<Rightarrow> bool" where
  "implementsFile hv (File_Read dest off) = (asHookOnRead hv \<noteq> None)"
| "implementsFile hv (File_Write data off) = (asHookOnWrite hv \<noteq> None)"
| "implementsFile hv (File_Flush) = (asHookOnFlush hv \<noteq> None)"
| "implementsFile hv (File_Release) = (asHookOnRelease hv \<noteq> None)"
| "implementsFile hv (File_Fsync flags) = (asHookOnFsync hv \<noteq> None)"
| "implementsFile hv (File_Truncate size') = (asfHookOnTruncate hv \<noteq> None)"
| "implementsFile hv (File_GetAttr out) = (asfHookOnGetAttr hv \<noteq> None)"
| "implementsFile hv (File_Chown uid gid) = (asfHookOnChown hv \<noteq> None)"
| "implementsFile hv (File_Chmod perms) = (asfHookOnChmod hv \<noteq> None)"
| "implementsFile hv (File_Utimens atime mtime) = (asfHookOnUtimens hv \<noteq> None)"
| "implementsFile hv (File_Allocate off size' mode) = (asHookOnAllocate hv \<noteq> None)"
| "implementsFile hv (File_GetLk owner lk flags out) = (asHookOnGetLk hv \<noteq> None)"
| "implementsFile hv (File_SetLk owner lk flags) = (asHookOnSetLk hv \<noteq> None)"
| "implementsFile hv (File_SetLkw owner lk flags) = (asHookOnSetLkw hv \<noteq> None)"

fun implements :: "('w, 'c) call \<Rightarrow> bool" where
  "implements (OnFs h r) = (case hook h of None \<Rightarrow> False | Some hv \<Rightarrow> implementsFs hv r)"
| "implements (OnFile h r) = (case h_hook h of None \<Rightarrow> False | Some hv \<Rightarrow> implementsFile hv r)"

text \<open>
  The request sent to the delegate directly. \<open>Open\<close> and \<open>Create\<close> of the engine
  return a hooked file, so their handle is the delegate's inside the structure
  \<open>newHookFile\<close> builds. A hooked file whose \<open>file\<close> is nil has no delegate: the call
  panics.
\<close>

fun directFs :: "('w, 'c) HookFs \<Rightarrow> fscall \<Rightarrow> ('w, ('w, 'c) reply outcome) eff" where
  "directFs h (Fs_GetAttr name context) w =
     (case FileSystem.GetAttr (fs h) name context w of (r, w') \<Rightarrow> (Returned ((case_prod RetAttr) r), w'))"
| "directFs h (Fs_Chmod name mode context) w =
     (case FileSystem.Chmod (fs h) name mode context w of (r, w') \<Rightarrow> (Returned (RetStatus r), w'))"
| "directFs h (Fs_Chown name uid gid context) w =
     (case FileSystem.Chown (fs h) name uid gid context w of (r, w') \<Rightarrow> (Returned (RetStatus r), w'))"
| "directFs h (Fs_Utimens name Atime Mtime context) w =
     (case FileSystem.Utimens (fs h) name Atime Mtime context w of (r, w') \<Rightarrow> (Returned (RetStatus r), w'))"
| "directFs h (Fs_Truncate name size' context) w =
     (case FileSystem.Truncate (fs h) name size' context w of (r, w') \<Rightarrow> (Returned (RetStatus r), w'))"
| "directFs h (Fs_Access name mode context) w =
     (case FileSystem.Access (fs h) name mode context w of (r, w') \<Rightarrow> (Returned (RetStatus r), w'))"
| "directFs h (Fs_Link oldName newName context) w =
     (case FileSystem.Link (fs h) oldName newName context w of (r, w') \<Rightarrow> (Returned (RetStatus r), w'))"
| "directFs h (Fs_Mkdir name mode context) w =
     (case FileSystem.Mkdir (fs h) name mode context w of (r, w') \<Rightarrow> (Returned (RetStatus r), w'))"
| "directFs h (Fs_Mknod name mode dev context) w =
     (case FileSystem.Mknod (fs h) name mode dev context w of (r, w') \<Rightarrow> (Returned (RetStatus r), w'))"
| "directFs h (Fs_Rename oldName newName context) w =
     (case FileSystem.Rename (fs h) oldName newName context w of (r, w') \<Rightarrow> (Returned (RetStatus r), w'))"
| "directFs h (Fs_Rmdir name context) w =
     (case FileSystem.Rmdir (fs h) name context w of (r, w') \<Rightarrow> (Returned (RetStatus r), w'))"
| "directFs h (Fs_Unlink name context) w =
     (case FileSystem.Unlink (fs h) name context w of (r, w') \<Rightarrow> (Returned (RetStatus r), w'))"
| "directFs h (Fs_GetXAttr name attribute context) w =
     (case FileSystem.GetXAttr (fs h) name attribute context w of (r, w') \<Rightarrow> (Returned ((case_prod RetBytes) r), w'))"
| "directFs h (Fs_ListXAttr name context) w =
     (case FileSystem.ListXAttr (fs h) name context w of (r, w') \<Rightarrow> (Returned ((case_prod RetStrings) r), w'))"
| "directFs h (Fs_RemoveXAttr name attr context) w =
     (case FileSystem.RemoveXAttr (fs h) name attr context w of (r, w') \<Rightarrow> (Returned (RetStatus r), w'))"
| "directFs h (Fs_SetXAttr name attr data flags context) w =
     (case FileSystem.SetXAttr (fs h) name attr data flags context w of (r, w') \<Rightarrow> (Returned (RetStatus r), w'))"
| "directFs h (Fs_Open name flags context) w =
     (case FileSystem.Open (fs h) name flags context w of ((lowerFile, lowerCode), w') \<Rightarrow> (Returned (RetFile (Some \<lparr>h_file = lowerFile, h_name = name, h_hook = hook h\<rparr>) lowerCode), w'))"
| "directFs h (Fs_Create name flags mode context) w =
     (case FileSystem.Create (fs h) name flags mode context w of ((lowerFile, lowerCode), w') \<Rightarrow> (Returned (RetFile (Some \<lparr>h_file = lowerFile, h_name = name, h_hook = hook h\<rparr>) lowerCode), w'))"
| "directFs h (Fs_OpenDir name context) w =
     (case FileSystem.OpenDir (fs h) name context w of (r, w') \<Rightarrow> (Returned ((case_prod RetEntries) r), w'))"
| "directFs h (Fs_Symlink value linkName context) w =
     (case FileSystem.Symlink (fs h) value linkName context w of (r, w') \<Rightarrow> (Returned (RetStatus r), w'))"
| "directFs h (Fs_Readlink name context) w =
     (case FileSystem.Readlink (fs h) name context w of (r, w') \<Rightarrow> (Returned ((case_prod RetString) r), w'))"
| "directFs h (Fs_StatFs name) w =
     (case FileSystem.StatFs (fs h) name w of (r, w') \<Rightarrow> (Returned (RetStatfs r), w'))"

fun directFile :: "'w File \<Rightarrow> filecall \<Rightarrow> ('w, ('w, 'c) reply outcome) eff" where
  "directFile f (File_Read dest off) w =
     (case File.Read f dest off w of (r, w') \<Rightarrow> (Returned ((case_prod RetRead) r), w'))"
| "directFile f (File_Write data off) w =
     (case File.Write f data off w of (r, w') \<Rightarrow> (Returned ((case_prod RetWritten) r), w'))"
| "directFile f (File_Flush) w =
     (case File.Flush f w of (r, w') \<Rightarrow> (Returned (RetStatus r), w'))"
| "directFile f (File_Release) w =
     (case File.Release f w of (r, w') \<Rightarrow> (Returned ((\<lambda>_. RetUnit) r), w'))"
| "directFile f (File_Fsync flags) w =
     (case File.Fsync f flags w of (r, w') \<Rightarrow> (Returned (RetStatus r), w'))"
| "directFile f (File_Truncate size') w =
     (case File.Truncate f size' w of (r, w') \<Rightarrow> (Returned (RetStatus r), w'))"
| "directFile f (File_GetAttr out) w =
     (case File.GetAttr f out w of (r, w') \<Rightarrow> (Returned (RetStatus r), w'))"
| "directFile f (File_Chown uid gid) w =
     (case File.Chown f uid gid w of (r, w') \<Rightarrow> (Returned (RetStatus r), w'))"
| "directFile f (File_Chmod perms) w =
     (case File.Chmod f perms w of (r, w') \<Rightarrow> (Returned (RetStatus r), w'))"
| "directFile f (File_Utimens atime mtime) w =
     (case File.Utimens f atime mtime w of (r, w') \<Rightarrow> (Returned (RetStatus r), w'))"
| "directFile f (File_Allocate off size' mode) w =
     (case File.Allocate f off size' mode w of (r, w') \<Rightarrow> (Returned (RetStatus r), w'))"
| "directFile f (File_GetLk owner lk flags out) w =
     (case File.GetLk f owner lk flags out w of (r, w') \<Rightarrow> (Returned (RetStatus r), w'))"
| "directFile f (File_SetLk owner lk flags) w =
     (case File.SetLk f owner lk flags w of (r, w') \<Rightarrow> (Returned (RetStatus r), w'))"
| "directFile f (File_SetLkw owner lk flags) w =
     (case File.SetLkw f owner lk flags w of (r, w') \<Rightarrow> (Returned (RetStatus r), w'))"

fun direct :: "('w, 'c) call \<Rightarrow> ('w, ('w, 'c) reply outcome) eff" where
  "direct (OnFs h r) w = directFs h r w"
| "direct (OnFile h r) w = (case h_file h of None \<Rightarrow> (Panicked, w) | Some f \<Rightarrow> directFile f r w)"

text \<open>
  The hooked file \<open>Open\<close> and \<open>Create\<close> build around the file of the delegate; no
  other method returns a handle.
\<close>

definition handleFs :: "('w, 'c) HookFs \<Rightarrow> fscall \<Rightarrow> 'w File option \<Rightarrow> ('w, 'c) hookFile option" where
  "handleFs h r lowerFile =
    (case r of
       Fs_Open name flags context \<Rightarrow> Some \<lparr>h_file = lowerFile, h_name = name, h_hook = hook h\<rparr>
     | Fs_Create name flags mode context \<Rightarrow> Some \<lparr>h_file = lowerFile, h_name = name, h_hook = hook h\<rparr>
     | _ \<Rightarrow> None)"

fun handleOf :: "('w, 'c) call \<Rightarrow> 'w File option \<Rightarrow> ('w, 'c) hookFile option" where
  "handleOf (OnFs h r) lowerFile = handleFs h r lowerFile"
| "handleOf (OnFile h r) lowerFile = None"

text \<open>The four methods that exit when their Pre method hooks without an error.\<close>

definition fatalFs :: "fscall \<Rightarrow> bool" where
  "fatalFs r =
    (case r of
       Fs_Mkdir name mode context \<Rightarrow> True
     | Fs_Rmdir name context \<Rightarrow> True
     | Fs_Open name flags context \<Rightarrow> True
     | Fs_OpenDir name context \<Rightarrow> True
     | _ \<Rightarrow> False)"

fun fatalCall :: "('w, 'c) call \<Rightarrow> bool" where
  "fatalCall (OnFs h r) = fatalFs r"
| "fatalCall (OnFile h r) = False"

subsection \<open>The protocol of an interception\<close>

text \<open>
  All methods but \<open>Read\<close> and \<open>Release\<close> run the same steps; they differ in the
  messages they log, in the interface they assert, in the call to the delegate, in what
  they return when the Pre method hooks, and four of them exit on a hooked Pre method
  without an error. A \<open>plan\<close> holds these differences, \<open>protocol\<close> the steps.
\<close>

record ('w, 'c) plan =
  p_trace :: string
  p_op :: string
  p_hook :: "(('w, bool \<times> 'c option \<times> error option) eff \<times>
              (Status \<Rightarrow> 'c option \<Rightarrow> ('w, bool \<times> error option) eff)) option"
  p_fatal :: bool
  p_lower :: "('w, ('w File option, 'w) ret) eff option"
  p_event :: "('w File option, 'w) ret \<Rightarrow> 'w event"
  p_wrap :: "('w File option \<Rightarrow> ('w, 'c) hookFile option) option"
  p_short :: "Status \<Rightarrow> (('w, 'c) hookFile option, 'w) ret"

fun retCode :: "('f, 'w) ret \<Rightarrow> Status" where
  "retCode (RetStatus c) = c"
| "retCode (RetAttr a c) = c"
| "retCode (RetBytes b c) = c"
| "retCode (RetStrings l c) = c"
| "retCode (RetString l c) = c"
| "retCode (RetFile f c) = c"
| "retCode (RetEntries l c) = c"
| "retCode (RetStatfs p) = OK"
| "retCode (RetRead r c) = c"
| "retCode (RetWritten n c) = c"
| "retCode RetUnit = OK"

text \<open>
  What a method returns when its Post method hooks: the result of the delegate with the
  status of the hook in the place of the delegate's, and a written count of zero.
\<close>

fun replaceBy :: "Status \<Rightarrow> ('f, 'w) ret \<Rightarrow> ('f, 'w) ret" where
  "replaceBy st (RetStatus c) = RetStatus st"
| "replaceBy st (RetAttr a c) = RetAttr a st"
| "replaceBy st (RetBytes b c) = RetBytes b st"
| "replaceBy st (RetStrings l c) = RetStrings l st"
| "replaceBy st (RetString l c) = RetString l st"
| "replaceBy st (RetFile f c) = RetFile f st"
| "replaceBy st (RetEntries l c) = RetEntries l st"
| "replaceBy st (RetStatfs p) = RetStatfs p"
| "replaceBy st (RetRead r c) = RetRead r st"
| "replaceBy st (RetWritten n c) = RetWritten 0 st"
| "replaceBy st RetUnit = RetUnit"

definition wrapped :: "('w, 'c) plan \<Rightarrow> ('w File option, 'w) ret \<Rightarrow> (('w, 'c) hookFile option, 'w) ret" where
  "wrapped p r = map_ret (case p_wrap p of Some wr \<Rightarrow> wr | None \<Rightarrow> (\<lambda>f. None)) r"

definition protocol :: "('w, 'c) plan \<Rightarrow> 'w run \<Rightarrow> (('w, 'c) hookFile option, 'w) ret outcome \<times> 'w run" where
  "protocol p s0 =
    (let s1 = logf TraceLevel (p_trace p) s0;
         ((prehooked, prehookCtx, prehookErr), s2) =
           (case p_hook p of
              Some (before, after) \<Rightarrow> invoke (preEvent (p_op p)) before s1
            | None \<Rightarrow> ((False, None, None), s1))
     in if prehooked then
          (let s3 = logf DebugLevel (p_op p @ '': Prehooked'') s2
           in if p_fatal p \<and> prehookErr = None then
                (Exited, logf FatalLevel (p_op p @ '' is prehooked, but did not returned an error. h is very strange.'') s3)
              else (Returned (p_short p (ToStatus prehookErr)), s3))
        else
          (case p_lower p of
             None \<Rightarrow> (Panicked, s2)
           | Some lower \<Rightarrow>
               (let (r, s3) = invoke (p_event p) lower s2;
                    s4 = (case p_wrap p of Some wr \<Rightarrow> logf DebugLevel ''Hooking a file'' s3 | None \<Rightarrow> s3);
                    ((posthooked, posthookErr), s5) =
                      (case p_hook p of
                         Some (before, after) \<Rightarrow> invoke (postEvent (p_op p)) (after (retCode r) prehookCtx) s4
                       | None \<Rightarrow> ((False, None), s4))
                in if posthooked then
                     (Returned (replaceBy (ToStatus posthookErr) (wrapped p r)),
                      logf DebugLevel (p_op p @ '': Posthooked'') s5)
                   else (Returned (wrapped p r), s5))))"

text \<open>The message of \<open>newHookFile\<close>, for the plans that wrap a file.\<close>

definition wraplog :: "('w, 'c) plan \<Rightarrow> 'w event list" where
  "wraplog p = (case p_wrap p of Some wr \<Rightarrow> [Log DebugLevel ''Hooking a file''] | None \<Rightarrow> [])"

fun planFs :: "('w, 'c) HookFs \<Rightarrow> fscall \<Rightarrow> ('w, 'c) plan" where
  "planFs h (Fs_GetAttr name context) =
     \<lparr>p_trace = ''fs.GetAttr'', p_op = ''GetAttr'',
      p_hook = map_option (\<lambda>hk. (PreGetAttr hk name, PostGetAttr hk)) (typeAssert asHookOnGetAttr (hook h)),
      p_fatal = False,
      p_lower = Some (\<lambda>w. apfst (case_prod RetAttr) (FileSystem.GetAttr (fs h) name context w)),
      p_event = FsCall ''GetAttr'',
      p_wrap = None,
      p_short = RetAttr nil\<rparr>"
| "planFs h (Fs_Chmod name mode context) =
     \<lparr>p_trace = ''fs.Chmod'', p_op = ''Chmod'',
      p_hook = map_option (\<lambda>hk. (PreChmod hk name mode, PostChmod hk)) (typeAssert asHookOnChmod (hook h)),
      p_fatal = False,
      p_lower = Some (\<lambda>w. apfst (RetStatus) (FileSystem.Chmod (fs h) name mode context w)),
      p_event = FsCall ''Chmod'',
      p_wrap = None,
      p_short = RetStatus\<rparr>"
| "planFs h (Fs_Chown name uid gid context) =
     \<lparr>p_trace = ''fs.Chown'', p_op = ''Chown'',
      p_hook = map_option (\<lambda>hk. (PreChown hk name uid gid, PostChown hk)) (typeAssert asHookOnChown (hook h)),
      p_fatal = False,
      p_lower = Some (\<lambda>w. apfst (RetStatus) (FileSystem.Chown (fs h) name uid gid context w)),
      p_event = FsCall ''Chown'',
      p_wrap = None,
      p_short = RetStatus\<rparr>"
| "planFs h (Fs_Utimens name Atime Mtime context) =
     \<lparr>p_trace = ''fs.Utimens'', p_op = ''Utimens'',
      p_hook = map_option (\<lambda>hk. (PreUtimens hk name Atime Mtime, PostUtimens hk)) (typeAssert asHookOnUtimens (hook h)),
      p_fatal = False,
      p_lower = Some (\<lambda>w. apfst (RetStatus) (FileSystem.Utimens (fs h) name Atime Mtime context w)),
      p_event = FsCall ''Utimens'',
      p_wrap = None,
      p_short = RetStatus\<rparr>"
| "planFs h (Fs_Truncate name size' context) =
     \<lparr>p_trace = ''fs.Truncate'', p_op = ''Truncate'',
      p_hook = map_option (\<lambda>hk. (PreTruncate hk name size', PostTruncate hk)) (typeAssert asHookOnTruncate (hook h)),
      p_fatal = False,
      p_lower = Some (\<lambda>w. apfst (RetStatus) (FileSystem.Truncate (fs h) name size' context w)),
      p_event = FsCall ''Truncate'',
      p_wrap = None,
      p_short = RetStatus\<rparr>"
| "planFs h (Fs_Access name mode context) =
     \<lparr>p_trace = ''fs.Access'', p_op = ''Access'',
      p_hook = map_option (\<lambda>hk. (PreAccess hk name mode, PostAccess hk)) (typeAssert asHookOnAccess (hook h)),
      p_fatal = False,
      p_lower = Some (\<lambda>w. apfst (RetStatus) (FileSystem.Access (fs h) name mode context w)),
      p_event = FsCall ''Access'',
      p_wrap = None,
      p_short = RetStatus\<rparr>"
| "planFs h (Fs_Link oldName newName context) =
     \<lparr>p_trace = ''fs.Link'', p_op = ''Link'',
      p_hook = map_option (\<lambda>hk. (PreLink hk oldName newName, PostLink hk)) (typeAssert asHookOnLink (hook h)),
      p_fatal = False,
      p_lower = Some (\<lambda>w. apfst (RetStatus) (FileSystem.Link (fs h) oldName newName context w)),
      p_event = FsCall ''Link'',
      p_wrap = None,
      p_short = RetStatus\<rparr>"
| "planFs h (Fs_Mkdir name mode context) =
     \<lparr>p_trace = ''fs.Mkdir'', p_op = ''Mkdir'',
      p_hook = map_option (\<lambda>hk. (PreMkdir hk name mode, PostMkdir hk)) (typeAssert asHookOnMkdir (hook h)),
      p_fatal = True,
      p_lower = Some (\<lambda>w. apfst (RetStatus) (FileSystem.Mkdir (fs h) name mode context w)),
      p_event = FsCall ''Mkdir'',
      p_wrap = None,
      p_short = RetStatus\<rparr>"
| "planFs h (Fs_Mknod name mode dev context) =
     \<lparr>p_trace = ''fs.Mknod'', p_op = ''Mknod'',
      p_hook = map_option (\<lambda>hk. (PreMknod hk name mode dev, PostMknod hk)) (typeAssert asHookOnMknod (hook h)),
      p_fatal = False,
      p_lower = Some (\<lambda>w. apfst (RetStatus) (FileSystem.Mknod (fs h) name mode dev context w)),
      p_event = FsCall ''Mknod'',
      p_wrap = None,
      p_short = RetStatus\<rparr>"
| "planFs h (Fs_Rename oldName newName context) =
     \<lparr>p_trace = ''fs.Rename'', p_op = ''Rename'',
      p_hook = map_option (\<lambda>hk. (PreRename hk oldName newName, PostRename hk)) (typeAssert asHookOnRename (hook h)),
      p_fatal = False,
      p_lower = Some (\<lambda>w. apfst (RetStatus) (FileSystem.Rename (fs h) oldName newName context w)),
      p_event = FsCall ''Rename'',
      p_wrap = None,
      p_short = RetStatus\<rparr>"
| "planFs h (Fs_Rmdir name context) =
     \<lparr>p_trace = ''fs.Rmdir'', p_op = ''Rmdir'',
      p_hook = map_option (\<lambda>hk. (PreRmdir hk name, PostRmdir hk)) (typeAssert asHookOnRmdir (hook h)),
      p_fatal = True,
      p_lower = Some (\<lambda>w. apfst (RetStatus) (FileSystem.Rmdir (fs h) name context w)),
      p_event = FsCall ''Rmdir'',
      p_wrap = None,
      p_short = RetStatus\<rparr>"
| "planFs h (Fs_Unlink name context) =
     \<lparr>p_trace = ''fs.Unlink'', p_op = ''Unlink'',
      p_hook = map_option (\<lambda>hk. (PreUnlink hk name, PostUnlink hk)) (typeAssert asHookOnUnlink (hook h)),
      p_fatal = False,
      p_lower = Some (\<lambda>w. apfst (RetStatus) (FileSystem.Unlink (fs h) name context w)),
      p_event = FsCall ''Unlink'',
      p_wrap = None,
      p_short = RetStatus\<rparr>"
| "planFs h (Fs_GetXAttr name attribute context) =
     \<lparr>p_trace = ''fs.CetXAttr'', p_op = ''GetXAttr'',
      p_hook = map_option (\<lambda>hk. (PreGetXAttr hk name attribute, PostGetXAttr hk)) (typeAssert asHookOnGetXAttr (hook h)),
      p_fatal = False,
      p_lower = Some (\<lambda>w. apfst (case_prod RetBytes) (FileSystem.GetXAttr (fs h) name attribute context w)),
      p_event = FsCall ''GetXAttr'',
      p_wrap = None,
      p_short = RetBytes []\<rparr>"
| "planFs h (Fs_ListXAttr name context) =
     \<lparr>p_trace = ''fs.ListXAttr'', p_op = ''ListXAttr'',
      p_hook = map_option (\<lambda>hk. (PreListXAttr hk name, PostListXAttr hk)) (typeAssert asHookOnListXAttr (hook h)),
      p_fatal = False,
      p_lower = Some (\<lambda>w. apfst (case_prod RetStrings) (FileSystem.ListXAttr (fs h) name context w)),
      p_event = FsCall ''ListXAttr'',
      p_wrap = None,
      p_short = RetStrings []\<rparr>"
| "planFs h (Fs_RemoveXAttr name attr context) =
     \<lparr>p_trace = ''fs.RemoveXAttr'', p_op = ''RemoveXAttr'',
      p_hook = map_option (\<lambda>hk. (PreRemoveXAttr hk name attr, PostRemoveXAttr hk)) (typeAssert asHookOnRemoveXAttr (hook h)),
      p_fatal = False,
      p_lower = Some (\<lambda>w. apfst (RetStatus) (FileSystem.RemoveXAttr (fs h) name attr context w)),
      p_event = FsCall ''RemoveXAttr'',
      p_wrap = None,
      p_short = RetStatus\<rparr>"
| "planFs h (Fs_SetXAttr name attr data flags context) =
     \<lparr>p_trace = ''fs.SetXAttr'', p_op = ''SetXAttr'',
      p_hook = map_option (\<lambda>hk. (PreSetXAttr hk name attr data flags, PostSetXAttr hk)) (typeAssert asHookOnSetXAttr (hook h)),
      p_fatal = False,
      p_lower = Some (\<lambda>w. apfst (RetStatus) (FileSystem.SetXAttr (fs h) name attr data flags context w)),
      p_event = FsCall ''SetXAttr'',
      p_wrap = None,
      p_short = RetStatus\<rparr>"
| "planFs h (Fs_Open name flags context) =
     \<lparr>p_trace = ''fs.Open'', p_op = ''Open'',
      p_hook = map_option (\<lambda>hk. (PreOpen hk name flags, PostOpen hk)) (typeAssert asHookOnOpen (hook h)),
      p_fatal = True,
      p_lower = Some (\<lambda>w. apfst (case_prod RetFile) (FileSystem.Open (fs h) name flags context w)),
      p_event = FsCall ''Open'',
      p_wrap = Some (\<lambda>lowerFile. Some \<lparr>h_file = lowerFile, h_name = name, h_hook = hook h\<rparr>),
      p_short = RetFile None\<rparr>"
| "planFs h (Fs_Create name flags mode context) =
     \<lparr>p_trace = ''fs.Create'', p_op = ''Create'',
      p_hook = map_option (\<lambda>hk. (PreCreate hk name flags mode, PostCreate hk)) (typeAssert asHookOnCreate (hook h)),
      p_fatal = False,
      p_lower = Some (\<lambda>w. apfst (case_prod RetFile) (FileSystem.Create (fs h) name flags mode context w)),
      p_event = FsCall ''Create'',
      p_wrap = Some (\<lambda>lowerFile. Some \<lparr>h_file = lowerFile, h_name = name, h_hook = hook h\<rparr>),
      p_short = RetFile None\<rparr>"
| "planFs h (Fs_OpenDir name context) =
     \<lparr>p_trace = ''fs.OpenDir'', p_op = ''OpenDir'',
      p_hook = map_option (\<lambda>hk. (PreOpenDir hk name, PostOpenDir hk)) (typeAssert asHookOnOpenDir (hook h)),
      p_fatal = True,
      p_lower = Some (\<lambda>w. apfst (case_prod RetEntries) (FileSystem.OpenDir (fs h) name context w)),
      p_event = FsCall ''OpenDir'',
      p_wrap = None,
      p_short = RetEntries []\<rparr>"
| "planFs h (Fs_Symlink value linkName context) =
     \<lparr>p_trace = ''fs.Symlink'', p_op = ''Symlink'',
      p_hook = map_option (\<lambda>hk. (PreSymlink hk value linkName, PostSymlink hk)) (typeAssert asHookOnSymlink (hook h)),
      p_fatal = False,
      p_lower = Some (\<lambda>w. apfst (RetStatus) (FileSystem.Symlink (fs h) value linkName context w)),
      p_event = FsCall ''Symlink'',
      p_wrap = None,
      p_short = RetStatus\<rparr>"
| "planFs h (Fs_Readlink name context) =
     \<lparr>p_trace = ''fs.Readlink'', p_op = ''Readlink'',
      p_hook = map_option (\<lambda>hk. (PreReadlink hk name, PostReadlink hk)) (typeAssert asHookOnReadlink (hook h)),
      p_fatal = False,
      p_lower = Some (\<lambda>w. apfst (case_prod RetString) (FileSystem.Readlink (fs h) name context w)),
      p_event = FsCall ''Readlink'',
      p_wrap = None,
      p_short = RetString ''''\<rparr>"
| "planFs h (Fs_StatFs name) =
     \<lparr>p_trace = ''fs.StatFs'', p_op = ''StatFs'',
      p_hook = map_option (\<lambda>hk. (PreStatFs hk name, (\<lambda>code. PostStatFs hk))) (typeAssert asHookOnStatFs (hook h)),
      p_fatal = False,
      p_lower = Some (\<lambda>w. apfst (RetStatfs) (FileSystem.StatFs (fs h) name w)),
      p_event = FsCall ''StatFs'',
      p_wrap = None,
      p_short = (\<lambda>st. RetStatfs nil)\<rparr>"

fun planFile :: "('w, 'c) hookFile \<Rightarrow> filecall \<Rightarrow> ('w, 'c) plan option" where
  "planFile h (File_Read dest off) = None"
| "planFile h (File_Write data off) = Some
     \<lparr>p_trace = ''f.Write'', p_op = ''Write'',
      p_hook = map_option (\<lambda>hk. (PreWrite hk (h_name h) data off, PostWrite hk)) (typeAssert asHookOnWrite (h_hook h)),
      p_fatal = False,
      p_lower = map_option (\<lambda>f w. apfst (case_prod RetWritten) (File.Write f data off w)) (h_file h),
      p_event = FileCall ''Write'',
      p_wrap = None,
      p_short = RetWritten 0\<rparr>"
| "planFile h (File_Flush) = Some
     \<lparr>p_trace = ''f.Flush'', p_op = ''Flush'',
      p_hook = map_option (\<lambda>hk. (PreFlush hk (h_name h), PostFlush hk)) (typeAssert asHookOnFlush (h_hook h)),
      p_fatal = False,
      p_lower = map_option (\<lambda>f w. apfst (RetStatus) (File.Flush f w)) (h_file h),
      p_event = FileCall ''Flush'',
      p_wrap = None,
      p_short = RetStatus\<rparr>"
| "planFile h (File_Release) = None"
| "planFile h (File_Fsync flags) = Some
     \<lparr>p_trace = ''f.Fsync'', p_op = ''Fsync'',
      p_hook = map_option (\<lambda>hk. (PreFsync hk (h_name h) (word_of_int flags), PostFsync hk)) (typeAssert asHookOnFsync (h_hook h)),
      p_fatal = False,
      p_lower = map_option (\<lambda>f w. apfst (RetStatus) (File.Fsync f flags w)) (h_file h),
      p_event = FileCall ''Fsync'',
      p_wrap = None,
      p_short = RetStatus\<rparr>"
| "planFile h (File_Truncate size') = Some
     \<lparr>p_trace = ''f.Truncate'', p_op = ''Truncate'',
      p_hook = map_option (\<lambda>hk. (fPreTruncate hk (h_name h) size', (\<lambda>code. fPostTruncate hk))) (typeAssert asfHookOnTruncate (h_hook h)),
      p_fatal = False,
      p_lower = map_option (\<lambda>f w. apfst (RetStatus) (File.Truncate f size' w)) (h_file h),
      p_event = FileCall ''Truncate'',
      p_wrap = None,
      p_short = RetStatus\<rparr>"
| "planFile h (File_GetAttr out) = Some
     \<lparr>p_trace = ''f.GetAttr'', p_op = ''GetAttr'',
      p_hook = map_option (\<lambda>hk. (fPreGetAttr hk (h_name h) out, (\<lambda>code. fPostGetAttr hk))) (typeAssert asfHookOnGetAttr (h_hook h)),
      p_fatal = False,
      p_lower = map_option (\<lambda>f w. apfst (RetStatus) (File.GetAttr f out w)) (h_file h),
      p_event = FileCall ''GetAttr'',
      p_wrap = None,
      p_short = RetStatus\<rparr>"
| "planFile h (File_Chown uid gid) = Some
     \<lparr>p_trace = ''f.Chown'', p_op = ''Chown'',
      p_hook = map_option (\<lambda>hk. (fPreChown hk (h_name h) uid gid, (\<lambda>code. fPostChown hk))) (typeAssert asfHookOnChown (h_hook h)),
      p_fatal = False,
      p_lower = map_option (\<lambda>f w. apfst (RetStatus) (File.Chown f uid gid w)) (h_file h),
      p_event = FileCall ''Chown'',
      p_wrap = None,
      p_short = RetStatus\<rparr>"
| "planFile h (File_Chmod perms) = Some
     \<lparr>p_trace = ''f.Chmod'', p_op = ''Chmod'',
      p_hook = map_option (\<lambda>hk. (fPreChmod hk (h_name h) perms, (\<lambda>code. fPostChmod hk))) (typeAssert asfHookOnChmod (h_hook h)),
      p_fatal = False,
      p_lower = map_option (\<lambda>f w. apfst (RetStatus) (File.Chmod f perms w)) (h_file h),
      p_event = FileCall ''Chmod'',
      p_wrap = None,
      p_short = RetStatus\<rparr>"
| "planFile h (File_Utimens atime mtime) = Some
     \<lparr>p_trace = ''f.Utimens'', p_op = ''Utimens'',
      p_hook = map_option (\<lambda>hk. (fPreUtimens hk (h_name h) atime mtime, (\<lambda>code. fPostUtimens hk))) (typeAssert asfHookOnUtimens (h_hook h)),
      p_fatal = False,
      p_lower = map_option (\<lambda>f w. apfst (RetStatus) (File.Utimens f atime mtime w)) (h_file h),
      p_event = FileCall ''Utimens'',
      p_wrap = None,
      p_short = RetStatus\<rparr>"
| "planFile h (File_Allocate off size' mode) = Some
     \<lparr>p_trace = ''f.Allocate'', p_op = ''Allocate'',
      p_hook = map_option (\<lambda>hk. (PreAllocate hk (h_name h) off size' mode, (\<lambda>code. PostAllocate hk))) (typeAssert asHookOnAllocate (h_hook h)),
      p_fatal = False,
      p_lower = map_option (\<lambda>f w. apfst (RetStatus) (File.Allocate f off size' mode w)) (h_file h),
      p_event = FileCall ''Allocate'',
      p_wrap = None,
      p_short = RetStatus\<rparr>"
| "planFile h (File_GetLk owner lk flags out) = Some
     \<lparr>p_trace = ''f.GetLk'', p_op = ''GetLk'',
      p_hook = map_option (\<lambda>hk. (PreGetLk hk (h_name h) owner lk flags out, (\<lambda>code. PostGetLk hk))) (typeAssert asHookOnGetLk (h_hook h)),
      p_fatal = False,
      p_lower = map_option (\<lambda>f w. apfst (RetStatus) (File.GetLk f owner lk flags out w)) (h_file h),
      p_event = FileCall ''GetLk'',
      p_wrap = None,
      p_short = RetStatus\<rparr>"
| "planFile h (File_SetLk owner lk flags) = Some
     \<lparr>p_trace = ''f.SetLk'', p_op = ''SetLk'',
      p_hook = map_option (\<lambda>hk. (PreSetLk hk (h_name h) owner lk flags, (\<lambda>code. PostSetLk hk))) (typeAssert asHookOnSetLk (h_hook h)),
      p_fatal = False,
      p_lower = map_option (\<lambda>f w. apfst (RetStatus) (File.SetLk f owner lk flags w)) (h_file h),
      p_event = FileCall ''SetLk'',
      p_wrap = None,
      p_short = RetStatus\<rparr>"
| "planFile h (File_SetLkw owner lk flags) = Some
     \<lparr>p_trace = ''f.SetLkw'', p_op = ''SetLkw'',
      p_hook = map_option (\<lambda>hk. (PreSetLkw hk (h_name h) owner lk flags, (\<lambda>code. PostSetLkw hk))) (typeAssert asHookOnSetLkw (h_hook h)),
      p_fatal = False,
      p_lower = map_option (\<lambda>f w. apfst (RetStatus) (File.SetLkw f owner lk flags w)) (h_file h),
      p_event = FileCall ''SetLkw'',
      p_wrap = None,
      p_short = RetStatus\<rparr>"

text \<open>
  The plan of a request. \<open>Read\<close> and \<open>Release\<close> of a hooked file do not follow the
  protocol and have none.
\<close>

fun planOf :: "('w, 'c) call \<Rightarrow> ('w, 'c) plan option" where
  "planOf (OnFs h r) = Some (planFs h r)"
| "planOf (OnFile h r) = planFile h r"

subsection \<open>A hook without interfaces and a counting delegate\<close>

text \<open>
  For running the engine on concrete requests: the hook that implements nothing, and a
  delegate whose world is the number of calls it has received.
\<close>

definition noHook :: "('w, 'c) Hook" where
  "noHook =
     \<lparr>asHookWithInit = None, asHookOnGetAttr = None, asHookOnChmod = None,
      asHookOnChown = None, asHookOnUtimens = None, asHookOnTruncate = None,
      asHookOnAccess = None, asHookOnLink = None, asHookOnMkdir = None,
      asHookOnMknod = None, asHookOnRename = None, asHookOnRmdir = None,
      asHookOnUnlink = None, asHookOnGetXAttr = None, asHookOnListXAttr = None,
      asHookOnRemoveXAttr = None, asHookOnSetXAttr = None, asHookOnOpen = None,
      asHookOnCreate = None, asHookOnOpenDir = None, asHookOnSymlink = None,
      asHookOnReadlink = None, asHookOnStatFs = None, asHookOnRead = None,
      asHookOnWrite = None, asHookOnFlush = None, asHookOnRelease = None,
      asHookOnFsync = None, asfHookOnTruncate = None, asfHookOnGetAttr = None,
      asfHookOnChown = None, asfHookOnChmod = None, asfHookOnUtimens = None,
      asHookOnAllocate = None, asHookOnGetLk = None, asHookOnSetLk = None,
      asHookOnSetLkw = None\<rparr>"

definition fakeFile :: "nat File" where
  "fakeFile =
     \<lparr>File.Read = (\<lambda>dest off w. ((Some (ReadResultData [1, 2, 3, 4]), OK), Suc w)),
      File.Write = (\<lambda>data off w. ((of_nat (length data), OK), Suc w)),
      File.Flush = (\<lambda>w. (OK, Suc w)),
      File.Release = (\<lambda>w. ((), Suc w)),
      File.Fsync = (\<lambda>flags w. (OK, Suc w)),
      File.Truncate = (\<lambda>size' w. (OK, Suc w)),
      File.GetAttr = (\<lambda>out w. (OK, Suc w)),
      File.Chown = (\<lambda>uid gid w. (OK, Suc w)),
      File.Chmod = (\<lambda>perms w. (OK, Suc w)),
      File.Utimens = (\<lambda>atime mtime w. (OK, Suc w)),
      File.Allocate = (\<lambda>off size' mode w. (OK, Suc w)),
      File.GetLk = (\<lambda>owner lk flags out w. (OK, Suc w)),
      File.SetLk = (\<lambda>owner lk flags w. (OK, Suc w)),
      File.SetLkw = (\<lambda>owner lk flags w. (OK, Suc w))\<rparr>"

definition fakeFs :: "nat FileSystem" where
  "fakeFs =
     \<lparr>FileSystem.GetAttr = (\<lambda>name context w. ((Addr 1, OK), Suc w)),
      FileSystem.Chmod = (\<lambda>name mode context w. (OK, Suc w)),
      FileSystem.Chown = (\<lambda>name uid gid context w. (OK, Suc w)),
      FileSystem.Utimens = (\<lambda>name Atime Mtime context w. (OK, Suc w)),
      FileSystem.Truncate = (\<lambda>name size' context w. (OK, Suc w)),
      FileSystem.Access = (\<lambda>name mode context w. (OK, Suc w)),
      FileSystem.Link = (\<lambda>oldName newName context w. (OK, Suc w)),
      FileSystem.Mkdir = (\<lambda>name mode context w. (OK, Suc w)),
      FileSystem.Mknod = (\<lambda>name mode dev context w. (OK, Suc w)),
      FileSystem.Rename = (\<lambda>oldName newName context w. (OK, Suc w)),
      FileSystem.Rmdir = (\<lambda>name context w. (OK, Suc w)),
      FileSystem.Unlink = (\<lambda>name context w. (OK, Suc w)),
      FileSystem.GetXAttr = (\<lambda>name attribute context w. (([1, 2, 3], OK), Suc w)),
      FileSystem.ListXAttr = (\<lambda>name context w. (([''user.a''], OK), Suc w)),
      FileSystem.RemoveXAttr = (\<lambda>name attr context w. (OK, Suc w)),
      FileSystem.SetXAttr = (\<lambda>name attr data flags context w. (OK, Suc w)),
      FileSystem.Open = (\<lambda>name flags context w. ((Some fakeFile, OK), Suc w)),
      FileSystem.Create = (\<lambda>name flags mode context w. ((Some fakeFile, OK), Suc w)),
      FileSystem.OpenDir = (\<lambda>name context w. (([(0, ''x'')], OK), Suc w)),
      FileSystem.Symlink = (\<lambda>value linkName context w. (OK, Suc w)),
      FileSystem.Readlink = (\<lambda>name context w. ((''target'', OK), Suc w)),
      FileSystem.StatFs = (\<lambda>name w. (Addr 2, Suc w)),
      FileSystem.OnMount = (\<lambda>nodeFs w. ((), Suc w)),
      FileSystem.OnUnmount = (\<lambda>w. ((), Suc w))\<rparr>"

text \<open>
  Three hooks. \<open>vetoHook err\<close> hooks in the Pre method of the interfaces it implements
  and returns \<open>err\<close>. \<open>rewriteHook\<close> lets the real call happen and hooks in the Post
  method. \<open>brokenHook\<close> is \<open>vetoHook\<close> with an \<open>Init\<close> that fails.
\<close>

definition denied :: error where
  "denied = Err 13 ''permission denied''"

definition vetoHook :: "error option \<Rightarrow> (nat, nat) Hook" where
  "vetoHook err = noHook
     \<lparr>asHookOnGetAttr := Some \<lparr>PreGetAttr = (\<lambda>path w. ((True, None, err), w)),
                                PostGetAttr = (\<lambda>code ctx w. ((False, None), w))\<rparr>,
      asHookOnGetXAttr := Some \<lparr>PreGetXAttr = (\<lambda>path attribute w. ((True, None, err), w)),
                                 PostGetXAttr = (\<lambda>code ctx w. ((False, None), w))\<rparr>,
      asHookOnListXAttr := Some \<lparr>PreListXAttr = (\<lambda>path w. ((True, None, err), w)),
                                  PostListXAttr = (\<lambda>code ctx w. ((False, None), w))\<rparr>,
      asHookOnReadlink := Some \<lparr>PreReadlink = (\<lambda>path w. ((True, None, err), w)),
                                 PostReadlink = (\<lambda>code ctx w. ((False, None), w))\<rparr>,
      asHookOnMkdir := Some \<lparr>PreMkdir = (\<lambda>path mode w. ((True, None, err), w)),
                              PostMkdir = (\<lambda>code ctx w. ((False, None), w))\<rparr>,
      asHookOnRead := Some \<lparr>PreRead = (\<lambda>path len offset w. (([7, 7], True, None, err), w)),
                             PostRead = (\<lambda>code buf ctx w. (([], False, None), w))\<rparr>,
      asHookOnWrite := Some \<lparr>PreWrite = (\<lambda>path buf offset w. ((True, None, err), w)),
                              PostWrite = (\<lambda>code ctx w. ((False, None), w))\<rparr>,
      asHookOnRelease := Some \<lparr>PreRelease = (\<lambda>path w. ((True, None), w)),
                                PostRelease = (\<lambda>ctx w. (False, w))\<rparr>\<rparr>"

definition rewriteHook :: "(nat, nat) Hook" where
  "rewriteHook = noHook
     \<lparr>asHookOnGetAttr := Some \<lparr>PreGetAttr = (\<lambda>path w. ((False, Some 7, None), w)),
                                PostGetAttr = (\<lambda>code ctx w. ((True, Some denied), w))\<rparr>,
      asHookOnRead := Some \<lparr>PreRead = (\<lambda>path len offset w. (([], False, Some 7, None), w)),
                             PostRead = (\<lambda>code buf ctx w. (([9], True, None), w))\<rparr>\<rparr>"

definition brokenHook :: "(nat, nat) Hook" where
  "brokenHook = (vetoHook (Some denied))
     \<lparr>asHookWithInit := Some \<lparr>Init = (\<lambda>w. (Some (Err 5 ''init failed''), w))\<rparr>\<rparr>"

text \<open>
  A hooked file system over the counting delegate, a hooked file over its file, and the
  run that starts with no call made.
\<close>

definition mounted :: "(nat, nat) Hook option \<Rightarrow> (nat, nat) HookFs" where
  "mounted hk = \<lparr>Original = ''/orig'', Mountpoint = ''/mnt'', FsName = ''hookfs'', fs = fakeFs, hook = hk\<rparr>"

definition opened :: "(nat, nat) Hook option \<Rightarrow> (nat, nat) hookFile" where
  "opened hk = \<lparr>h_file = Some fakeFile, h_name = ''/x'', h_hook = hk\<rparr>"

definition start :: "nat run" where
  "start = \<lparr>world = 0, trace = []\<rparr>"

section \<open>Properties\<close>

subsection \<open>The methods follow the protocol\<close>

lemmas engine_defs = Let_def typeAssert_def invoke_def logf_def preEvent_def postEvent_def answer_def newHookFile_def

lemmas fixture_defs = vetoHook_def rewriteHook_def brokenHook_def noHook_def mounted_def opened_def start_def
  fakeFs_def fakeFile_def denied_def typeAssert_def

lemma delegate_event:
  assumes "isDelegate ev"
  shows "ev \<noteq> PreHook a b c d" "ev \<noteq> PostHook a b c d" "ev \<noteq> Log l m" "\<not> isPost ev" "\<not> isHook ev"
  using assms by (cases ev; simp)+

lemma protocol_nohook_nil:
  assumes "p_hook p = None" "p_lower p = None"
  shows "protocol p s = (Panicked, \<lparr>world = world s, trace = trace s @ [Log TraceLevel (p_trace p)]\<rparr>)"
  using assms by (simp add: protocol_def engine_defs)

lemma protocol_nohook:
  assumes "p_hook p = None" "p_lower p = Some l" "l (world s) = (r, w)"
  shows "protocol p s = (Returned (wrapped p r),
           \<lparr>world = w, trace = trace s @ [Log TraceLevel (p_trace p), p_event p r] @ wraplog p\<rparr>)"
  using assms by (simp add: protocol_def engine_defs wraplog_def split: option.split)

lemma protocol_pre:
  assumes "p_hook p = Some (before, after)" "before (world s) = ((True, c, e), w)"
  shows "protocol p s =
          (if p_fatal p \<and> e = None then
             (Exited, \<lparr>world = w, trace = trace s @ [Log TraceLevel (p_trace p), PreHook (p_op p) [] True e,
                 Log DebugLevel (p_op p @ '': Prehooked''),
                 Log FatalLevel (p_op p @ '' is prehooked, but did not returned an error. h is very strange.'')]\<rparr>)
           else
             (Returned (p_short p (ToStatus e)),
              \<lparr>world = w, trace = trace s @ [Log TraceLevel (p_trace p), PreHook (p_op p) [] True e,
                 Log DebugLevel (p_op p @ '': Prehooked'')]\<rparr>))"
  using assms by (simp add: protocol_def engine_defs)

lemma protocol_nil:
  assumes "p_hook p = Some (before, after)" "before (world s) = ((False, c, e), w)" "p_lower p = None"
  shows "protocol p s = (Panicked, \<lparr>world = w, trace = trace s @ [Log TraceLevel (p_trace p), PreHook (p_op p) [] False e]\<rparr>)"
  using assms by (simp add: protocol_def engine_defs)

lemma protocol_post:
  assumes "p_hook p = Some (before, after)" "before (world s) = ((False, c, e), w)"
      and "p_lower p = Some l" "l w = (r, w2)" "after (retCode r) c w2 = ((True, e2), w3)"
  shows "protocol p s = (Returned (replaceBy (ToStatus e2) (wrapped p r)),
           \<lparr>world = w3, trace = trace s @ [Log TraceLevel (p_trace p), PreHook (p_op p) [] False e, p_event p r]
               @ wraplog p @ [PostHook (p_op p) [] True e2, Log DebugLevel (p_op p @ '': Posthooked'')]\<rparr>)"
  using assms by (simp add: protocol_def engine_defs wraplog_def split: option.split)

lemma protocol_plain:
  assumes "p_hook p = Some (before, after)" "before (world s) = ((False, c, e), w)"
      and "p_lower p = Some l" "l w = (r, w2)" "after (retCode r) c w2 = ((False, e2), w3)"
  shows "protocol p s = (Returned (wrapped p r),
           \<lparr>world = w3, trace = trace s @ [Log TraceLevel (p_trace p), PreHook (p_op p) [] False e, p_event p r]
               @ wraplog p @ [PostHook (p_op p) [] False e2]\<rparr>)"
  using assms by (simp add: protocol_def engine_defs wraplog_def split: option.split)

lemma protocol_cases [case_names nohook_nil nohook pre nil post plain]:
  obtains
    "p_hook p = None" "p_lower p = None"
  | l r w where "p_hook p = None" "p_lower p = Some l" "l (world s) = (r, w)"
  | before after c e w where "p_hook p = Some (before, after)" "before (world s) = ((True, c, e), w)"
  | before after c e w where "p_hook p = Some (before, after)" "before (world s) = ((False, c, e), w)" "p_lower p = None"
  | before after c e w l r w2 e2 w3 where "p_hook p = Some (before, after)" "before (world s) = ((False, c, e), w)"
      "p_lower p = Some l" "l w = (r, w2)" "after (retCode r) c w2 = ((True, e2), w3)"
  | before after c e w l r w2 e2 w3 where "p_hook p = Some (before, after)" "before (world s) = ((False, c, e), w)"
      "p_lower p = Some l" "l w = (r, w2)" "after (retCode r) c w2 = ((False, e2), w3)"
proof (cases "p_hook p")
  case None
  show ?thesis
  proof (cases "p_lower p")
    case None
    with \<open>p_hook p = None\<close> show ?thesis by (intro that(1)) simp_all
  next
    case (Some l)
    obtain r w where "l (world s) = (r, w)" by (cases "l (world s)")
    with Some \<open>p_hook p = None\<close> show ?thesis by (intro that(2)[of l r w]) simp_all
  qed
next
  case (Some ba)
  obtain before after where ba: "ba = (before, after)" by (cases ba)
  obtain hooked c e w where pre: "before (world s) = ((hooked, c, e), w)"
    by (cases "before (world s)") (metis prod_cases3)
  show ?thesis
  proof (cases hooked)
    case True
    with Some ba pre show ?thesis by (intro that(3)[of before after c e w]) simp_all
  next
    case False
    show ?thesis
    proof (cases "p_lower p")
      case None
      with Some ba pre False show ?thesis by (intro that(4)[of before after c e w]) simp_all
    next
      case l: (Some l)
      obtain r w2 where low: "l w = (r, w2)" by (cases "l w")
      obtain hooked2 e2 w3 where post: "after (retCode r) c w2 = ((hooked2, e2), w3)"
        by (cases "after (retCode r) c w2") (metis prod.collapse)
      show ?thesis
      proof (cases hooked2)
        case True
        with Some ba pre False l low post show ?thesis by (intro that(5)[of before after c e w l r w2 e2 w3]) simp_all
      next
        case F2: False
        with Some ba pre False l low post show ?thesis by (intro that(6)[of before after c e w l r w2 e2 w3]) simp_all
      qed
    qed
  qed
qed

lemma wraplog_plain: "ev \<in> set (wraplog p) \<Longrightarrow> \<not> isDelegate ev \<and> \<not> isHook ev \<and> \<not> isPost ev \<and> ev = Log DebugLevel ''Hooking a file''"
  by (auto simp: wraplog_def split: option.splits)

lemma wraplog_set: "set (wraplog p) \<subseteq> {Log DebugLevel ''Hooking a file''}"
  by (auto simp: wraplog_def split: option.splits)

lemma protocol_prehooked:
  assumes ev: "PreHook op buf True err \<in> set (since s (snd (protocol p s)))"
      and del: "\<And>r. isDelegate (p_event p r)"
  shows "op = p_op p \<and> buf = []
       \<and> (\<forall>ev \<in> set (since s (snd (protocol p s))). \<not> isDelegate ev \<and> \<not> isPost ev)
       \<and> fst (protocol p s) = (if p_fatal p \<and> err = None then Exited else Returned (p_short p (ToStatus err)))
       \<and> (p_fatal p \<and> err = None \<longrightarrow> last (since s (snd (protocol p s))) =
             Log FatalLevel (p_op p @ '' is prehooked, but did not returned an error. h is very strange.''))"
proof -
  have n1: "\<And>r. PreHook op buf True err \<noteq> p_event p r"
    using delegate_event(1)[OF del] by metis
  have n2: "PreHook op buf True err \<notin> set (wraplog p)"
    using wraplog_set[of p] by auto
  show ?thesis
  proof (cases rule: protocol_cases[where p = p and s = s])
    case nohook_nil
    with ev show ?thesis by (simp add: protocol_nohook_nil since_def)
  next
    case (nohook l r w)
    with ev n1 n2 show ?thesis by (simp add: protocol_nohook[OF nohook] since_def)
  next
    case (pre before after c e w)
    with ev show ?thesis by (auto simp: protocol_pre[OF pre] since_def split: if_splits)
  next
    case (nil before after c e w)
    with ev show ?thesis by (simp add: protocol_nil[OF nil] since_def)
  next
    case (post before after c e w l r w2 e2 w3)
    with ev n1 n2 show ?thesis by (simp add: protocol_post[OF post] since_def)
  next
    case (plain before after c e w l r w2 e2 w3)
    with ev n1 n2 show ?thesis by (simp add: protocol_plain[OF plain] since_def)
  qed
qed


lemma protocol_posthooked:
  assumes ev: "PostHook op buf True err \<in> set (since s (snd (protocol p s)))"
      and del: "\<And>r. isDelegate (p_event p r)"
  shows "op = p_op p \<and> buf = []
       \<and> (\<exists>r. p_event p r \<in> set (since s (snd (protocol p s)))
              \<and> fst (protocol p s) = Returned (replaceBy (ToStatus err) (wrapped p r)))"
proof -
  have n1: "\<And>r. PostHook op buf True err \<noteq> p_event p r"
    using delegate_event(2)[OF del] by metis
  have n2: "PostHook op buf True err \<notin> set (wraplog p)"
    using wraplog_set[of p] by auto
  show ?thesis
  proof (cases rule: protocol_cases[where p = p and s = s])
    case nohook_nil
    with ev show ?thesis by (simp add: protocol_nohook_nil since_def)
  next
    case (nohook l r w)
    with ev n1 n2 show ?thesis by (simp add: protocol_nohook[OF nohook] since_def)
  next
    case (pre before after c e w)
    with ev show ?thesis by (auto simp: protocol_pre[OF pre] since_def split: if_splits)
  next
    case (nil before after c e w)
    with ev show ?thesis by (simp add: protocol_nil[OF nil] since_def)
  next
    case (post before after c e w l r w2 e2 w3)
    with ev n1 n2 show ?thesis by (auto simp: protocol_post[OF post] since_def)
  next
    case (plain before after c e w l r w2 e2 w3)
    with ev n1 n2 show ?thesis by (simp add: protocol_plain[OF plain] since_def)
  qed
qed

lemma protocol_never_exits:
  assumes "fst (protocol p s) = Exited"
  shows "\<exists>err. PreHook (p_op p) [] True err \<in> set (since s (snd (protocol p s)))"
proof (cases rule: protocol_cases[where p = p and s = s])
  case nohook_nil
  with assms show ?thesis by (simp add: protocol_nohook_nil)
next
  case (nohook l r w)
  with assms show ?thesis by (simp add: protocol_nohook[OF nohook])
next
  case (pre before after c e w)
  with assms show ?thesis by (auto simp: protocol_pre[OF pre] since_def split: if_splits)
next
  case (nil before after c e w)
  with assms show ?thesis by (simp add: protocol_nil[OF nil])
next
  case (post before after c e w l r w2 e2 w3)
  with assms show ?thesis by (simp add: protocol_post[OF post])
next
  case (plain before after c e w l r w2 e2 w3)
  with assms show ?thesis by (simp add: protocol_plain[OF plain])
qed

lemma protocol_passthrough:
  assumes "p_hook p = None" and del: "\<And>r. isDelegate (p_event p r)"
  shows "(fst (protocol p s), world (snd (protocol p s))) =
           (case p_lower p of None \<Rightarrow> (Panicked, world s)
            | Some l \<Rightarrow> (case l (world s) of (r, w) \<Rightarrow> (Returned (wrapped p r), w)))
       \<and> (\<forall>ev \<in> set (since s (snd (protocol p s))). \<not> isHook ev)"
proof (cases "p_lower p")
  case None
  with assms show ?thesis by (simp add: protocol_nohook_nil since_def)
next
  case (Some l)
  obtain r w where lw: "l (world s) = (r, w)" by (cases "l (world s)")
  have "\<forall>ev \<in> set (wraplog p). \<not> isHook ev" using wraplog_set[of p] by auto
  with assms(1) Some lw delegate_event(5)[OF del] show ?thesis
    by (simp add: protocol_nohook[OF assms(1) Some lw] since_def)
qed

lemmas HookFs_defs =
    HookFs_GetAttr_def HookFs_Chmod_def HookFs_Chown_def HookFs_Utimens_def HookFs_Truncate_def
    HookFs_Access_def HookFs_Link_def HookFs_Mkdir_def HookFs_Mknod_def HookFs_Rename_def
    HookFs_Rmdir_def HookFs_Unlink_def HookFs_GetXAttr_def HookFs_ListXAttr_def
    HookFs_RemoveXAttr_def HookFs_SetXAttr_def HookFs_Open_def HookFs_Create_def
    HookFs_OpenDir_def HookFs_Symlink_def HookFs_Readlink_def HookFs_StatFs_def

lemmas hookFile_defs =
    hookFile_Write_def hookFile_Flush_def hookFile_Fsync_def hookFile_Truncate_def
    hookFile_GetAttr_def hookFile_Chown_def hookFile_Chmod_def hookFile_Utimens_def
    hookFile_Allocate_def hookFile_GetLk_def hookFile_SetLk_def hookFile_SetLkw_def

lemma serveFs_protocol: "serveFs h r s = protocol (planFs h r) s"
  by (cases r) (simp_all add: HookFs_defs protocol_def wrapped_def engine_defs split: option.split prod.split)

lemma serveFile_the: "planFile h r \<noteq> None \<Longrightarrow> serveFile h r s = protocol (the (planFile h r)) s"
  by (cases r) (simp_all add: hookFile_defs protocol_def wrapped_def engine_defs split: option.split prod.split)

lemma serveFile_protocol: "planFile h r = Some p \<Longrightarrow> serveFile h r s = protocol p s"
  using serveFile_the[of h r s] by simp


lemma serve_plan: "planOf c = Some p \<Longrightarrow> serve c s = protocol p s"
  by (cases c) (simp_all add: serveFs_protocol serveFile_protocol)

lemma handleFs_fun:
  "handleFs h r = (\<lambda>lowerFile. case r of
       Fs_Open name flags context \<Rightarrow> Some \<lparr>h_file = lowerFile, h_name = name, h_hook = hook h\<rparr>
     | Fs_Create name flags mode context \<Rightarrow> Some \<lparr>h_file = lowerFile, h_name = name, h_hook = hook h\<rparr>
     | _ \<Rightarrow> None)"
  by (rule ext) (simp add: handleFs_def)

lemma planFs_facts:
  "isDelegate (p_event (planFs h r) x)"
  "p_fatal (planFs h r) = fatalFs r"
  "retStatus (p_short (planFs h r) st) = (if p_op (planFs h r) = ''StatFs'' then None else Some st)"
  "wrapped (planFs h r) x = map_ret (handleFs h r) x"
  "(p_hook (planFs h r) = None) = (\<not> implements (OnFs h r))"
  "p_lower (planFs h r) \<noteq> None"
proof -
  show "isDelegate (p_event (planFs h r) x)" by (cases r) simp_all
  show "p_fatal (planFs h r) = fatalFs r" by (cases r) (simp_all add: fatalFs_def)
  show "retStatus (p_short (planFs h r) st) = (if p_op (planFs h r) = ''StatFs'' then None else Some st)"
    by (cases r) simp_all
  show "wrapped (planFs h r) x = map_ret (handleFs h r) x"
    by (cases r) (simp_all add: wrapped_def handleFs_fun)
  show "(p_hook (planFs h r) = None) = (\<not> implements (OnFs h r))"
    by (cases r) (simp_all add: typeAssert_def split: option.split)
  show "p_lower (planFs h r) \<noteq> None" by (cases r) simp_all
qed

lemma planFs_fatal_status: "fatalFs r \<Longrightarrow> retStatus (p_short (planFs h r) st) = Some st"
  by (cases r) (simp_all add: fatalFs_def)

lemma planFile_the:
  "planFile h r \<noteq> None \<Longrightarrow> isDelegate (p_event (the (planFile h r)) x)"
  "planFile h r \<noteq> None \<Longrightarrow> \<not> p_fatal (the (planFile h r))"
  "planFile h r \<noteq> None \<Longrightarrow> retStatus (p_short (the (planFile h r)) st) = (if p_op (the (planFile h r)) = ''StatFs'' then None else Some st)"
  "planFile h r \<noteq> None \<Longrightarrow> wrapped (the (planFile h r)) x = map_ret (\<lambda>f. None) x"
  "planFile h r \<noteq> None \<Longrightarrow> (p_hook (the (planFile h r)) = None) = (\<not> implements (OnFile h r))"
proof -
  show "planFile h r \<noteq> None \<Longrightarrow> isDelegate (p_event (the (planFile h r)) x)" by (cases r) simp_all
  show "planFile h r \<noteq> None \<Longrightarrow> \<not> p_fatal (the (planFile h r))" by (cases r) simp_all
  show "planFile h r \<noteq> None \<Longrightarrow> retStatus (p_short (the (planFile h r)) st) = (if p_op (the (planFile h r)) = ''StatFs'' then None else Some st)"
    by (cases r) simp_all
  show "planFile h r \<noteq> None \<Longrightarrow> wrapped (the (planFile h r)) x = map_ret (\<lambda>f. None) x"
    by (cases r) (simp_all add: wrapped_def)
  show "planFile h r \<noteq> None \<Longrightarrow> (p_hook (the (planFile h r)) = None) = (\<not> implements (OnFile h r))"
    by (cases r) (simp_all add: typeAssert_def split: option.split)
qed

lemma planFile_facts:
  assumes "planFile h r = Some p"
  shows "isDelegate (p_event p x)"
    "\<not> p_fatal p"
    "retStatus (p_short p st) = (if p_op p = ''StatFs'' then None else Some st)"
    "wrapped p x = map_ret (\<lambda>f. None) x"
    "(p_hook p = None) = (\<not> implements (OnFile h r))"
  using assms planFile_the[of h r] by simp_all

lemma handleOf_eq: "handleOf (OnFs h r) = handleFs h r" "handleOf (OnFile hf q) = (\<lambda>f. None)"
  by (rule ext, simp)+

lemma planOf_facts:
  assumes "planOf c = Some p"
  shows "isDelegate (p_event p x)"
    "p_fatal p = fatalCall c"
    "retStatus (p_short p st) = (if p_op p = ''StatFs'' then None else Some st)"
    "wrapped p x = map_ret (handleOf c) x"
    "(p_hook p = None) = (\<not> implements c)"
proof -
  have all: "isDelegate (p_event p x) \<and> p_fatal p = fatalCall c
      \<and> retStatus (p_short p st) = (if p_op p = ''StatFs'' then None else Some st)
      \<and> wrapped p x = map_ret (handleOf c) x
      \<and> (p_hook p = None) = (\<not> implements c)"
  proof (cases c)
    case (OnFs h r)
    with assms have p: "p = planFs h r" by simp
    show ?thesis unfolding p OnFs
      using planFs_facts[of h r] by (simp add: handleOf_eq)
  next
    case (OnFile h r)
    with assms have p: "planFile h r = Some p" by simp
    show ?thesis unfolding OnFile
      using planFile_facts[OF p] by (simp add: handleOf_eq)
  qed
  then show "isDelegate (p_event p x)"
    "p_fatal p = fatalCall c"
    "retStatus (p_short p st) = (if p_op p = ''StatFs'' then None else Some st)"
    "wrapped p x = map_ret (handleOf c) x"
    "(p_hook p = None) = (\<not> implements c)"
    by simp_all
qed

lemma planOf_None: "planOf c = None \<Longrightarrow> (\<exists>h dest off. c = OnFile h (File_Read dest off)) \<or> (\<exists>h. c = OnFile h File_Release)"
proof (cases c)
  case (OnFs h r)
  assume "planOf c = None" with OnFs show ?thesis by simp
next
  case (OnFile h r)
  assume "planOf c = None" with OnFile show ?thesis by (cases r) simp_all
qed

lemma directFs_plan:
  "directFs h r w = (case p_lower (planFs h r) of None \<Rightarrow> (Panicked, w)
      | Some l \<Rightarrow> (case l w of (x, w') \<Rightarrow> (Returned (wrapped (planFs h r) x), w')))"
  by (cases r) (simp_all add: wrapped_def split: prod.split)

lemma directFile_the:
  "planFile h r \<noteq> None \<Longrightarrow>
   (case h_file h of None \<Rightarrow> (Panicked, w) | Some f \<Rightarrow> (directFile f r w :: ('w, 'c) reply outcome \<times> 'w)) =
     (case p_lower (the (planFile h r)) of None \<Rightarrow> (Panicked, w)
      | Some l \<Rightarrow> (case l w of (x, w') \<Rightarrow> (Returned (wrapped (the (planFile h r)) x), w')))"
  by (cases r) (simp_all add: wrapped_def split: prod.split option.split)

lemma direct_plan:
  "planOf c = Some p \<Longrightarrow>
   direct c w = (case p_lower p of None \<Rightarrow> (Panicked, w)
      | Some l \<Rightarrow> (case l w of (x, w') \<Rightarrow> (Returned (wrapped p x), w')))"
proof (cases c)
  case (OnFs h r)
  assume "planOf c = Some p" with OnFs show ?thesis by (auto simp: directFs_plan)
next
  case (OnFile h r)
  assume "planOf c = Some p"
  with OnFile have ne: "planFile h r \<noteq> None" and e: "the (planFile h r) = p" by simp_all
  show ?thesis unfolding OnFile e[symmetric]
    using directFile_the[OF ne, of w] by simp
qed

lemma retCode_map [simp]: "retCode (map_ret f r) = retCode r"
  by (cases r) simp_all

subsection \<open>A hooked Pre method\<close>

lemma read_prehooked:
  assumes "typeAssert asHookOnRead (h_hook hf) = Some hk"
      and "PreRead hk (h_name hf) (of_nat (length dest)) off (world s) = ((buf, True, ctx, err), w)"
  shows "hookFile_Read hf dest off s =
           (Returned (Some (ReadResultData buf), ToStatus err),
            \<lparr>world = w, trace = trace s @ [Log TraceLevel ''f.Read'', PreHook ''Read'' buf True err,
                                          Log DebugLevel ''Read: Prehooked'']\<rparr>)"
  using assms by (simp add: hookFile_Read_def invoke_def logf_def Let_def)

lemma serve_prehooked:
  assumes plan: "planOf c = Some p" and hook: "p_hook p = Some (before, after)"
      and pre: "before (world s) = ((True, ctx, err), w)"
  shows "world (snd (serve c s)) = w"
    and "\<forall>ev \<in> set (events c s). \<not> isDelegate ev \<and> \<not> isPost ev"
    and "result c s = (if fatalCall c \<and> err = None then Exited else Returned (p_short p (ToStatus err)))"
    and "fatalCall c \<and> err = None \<longrightarrow>
           last (events c s) = Log FatalLevel (p_op p @ '' is prehooked, but did not returned an error. h is very strange.'')"
  using protocol_pre[OF hook pre] planOf_facts(2)[OF plan]
  by (simp_all add: serve_plan[OF plan] events_def result_def since_def)

text \<open>
  Claim C1, as the code has it. A request with a plan, that is every method but \<open>Read\<close>
  and \<open>Release\<close> of a hooked file: when the hook implements the interface and the Pre
  method returns \<open>hooked = true\<close>, the world is left as the Pre method left it, neither
  the delegate nor the Post method is called, and the method returns the value its plan
  holds for this case with the status of the error of the Pre method (\<open>StatFs\<close> has no
  status). The four methods \<open>fatalCall\<close> names do not return when that error is nil:
  the process exits. \<open>Read\<close> returns the buffer of \<open>PreRead\<close>. \<open>Release\<close> is left
  out: it goes on after a hooked \<open>PreRelease\<close>.
\<close>

theorem prehook_short_circuit:
  "(planOf c = Some p \<and> p_hook p = Some (before, after) \<and> before (world s) = ((True, ctx, err), w) \<longrightarrow>
      world (snd (serve c s)) = w
      \<and> (\<forall>ev \<in> set (events c s). \<not> isDelegate ev \<and> \<not> isPost ev)
      \<and> result c s = (if fatalCall c \<and> err = None then Exited else Returned (p_short p (ToStatus err)))
      \<and> retStatus (p_short p (ToStatus err)) = (if p_op p = ''StatFs'' then None else Some (ToStatus err)))
 \<and> (typeAssert asHookOnRead (h_hook hf) = Some hk
      \<and> PreRead hk (h_name hf) (of_nat (length dest)) off (world s) = ((buf, True, ctx, err), w) \<longrightarrow>
      hookFile_Read hf dest off s =
        (Returned (Some (ReadResultData buf), ToStatus err),
         \<lparr>world = w, trace = trace s @ [Log TraceLevel ''f.Read'', PreHook ''Read'' buf True err,
                                       Log DebugLevel ''Read: Prehooked'']\<rparr>))
 \<and> (planOf c = None \<longrightarrow> (\<exists>h dest off. c = OnFile h (File_Read dest off)) \<or> (\<exists>h. c = OnFile h File_Release))"
  using serve_prehooked[of c p before after s ctx err w] planOf_facts(3)[of c p] read_prehooked[of hf hk dest off s buf ctx err w]
    planOf_None[of c]
  by blast


theorem prehook_short_circuit_witness:
  "planOf (OnFs (mounted (Some (vetoHook (Some denied)))) (Fs_GetAttr ''/a'' nil) :: (nat, nat) call) \<noteq> None
   \<and> world (snd (serve (OnFs (mounted (Some (vetoHook (Some denied)))) (Fs_GetAttr ''/a'' nil)) start)) = 0
   \<and> result (OnFs (mounted (Some (vetoHook (Some denied)))) (Fs_GetAttr ''/a'' nil)) start = Returned (RetAttr nil 13)
   \<and> fst (hookFile_Read (opened (Some (vetoHook None))) [0, 0] 0 start) = Returned (Some (ReadResultData [7, 7]), OK)"
  using prehook_short_circuit[where c = "OnFs (mounted (Some (vetoHook (Some denied)))) (Fs_GetAttr ''/a'' nil)"
      and p = "planFs (mounted (Some (vetoHook (Some denied)))) (Fs_GetAttr ''/a'' nil)"
      and before = "\<lambda>w. ((True, None, Some denied), w)" and after = "\<lambda>code ctx w. ((False, None), w)"
      and s = start and ctx = None and err = "Some denied" and w = 0]
    prehook_short_circuit[where hf = "opened (Some (vetoHook None))" and dest = "[0, 0]" and off = 0
      and hk = "\<lparr>PreRead = (\<lambda>path len offset w. (([7, 7], True, None, None), w)), PostRead = (\<lambda>code buf ctx w. (([], False, None), w))\<rparr>"
      and s = start and ctx = None and err = None and w = 0 and buf = "[7, 7]"]
  by (simp add: fixture_defs ToStatus_def)

text \<open>
  C1 as the claim words it fails twice. With \<open>PreRelease\<close> returning \<open>hooked = true\<close>,
  \<open>Release\<close> calls the delegate (the counting delegate has seen one call) and then
  \<open>PostRelease\<close>. With \<open>PreMkdir\<close> returning \<open>hooked = true\<close> and no error,
  \<open>Mkdir\<close> does not return.
\<close>

theorem prehook_short_circuit_counterexample:
  "since start (snd (hookFile_Release (opened (Some (vetoHook None))) start)) =
     [Log TraceLevel ''f.Release'', PreHook ''Release'' [] True None, Log DebugLevel ''Release: Prehooked'',
      FileCall ''Release'' RetUnit, PostHook ''Release'' [] False None]
   \<and> world (snd (hookFile_Release (opened (Some (vetoHook None))) start)) = 1
   \<and> fst (HookFs_Mkdir (mounted (Some (vetoHook None))) ''/d'' 0 nil start) = Exited"
  by (simp add: hookFile_Release_def HookFs_Mkdir_def engine_defs since_def fixture_defs)

subsection \<open>The exit of Mkdir, Rmdir, Open and OpenDir\<close>

lemma read_never_exits: "fst (hookFile_Read h dest off s) \<noteq> Exited"
  by (simp add: hookFile_Read_def engine_defs case_prod_beta split: option.split)

lemma release_never_exits: "fst (hookFile_Release h s) \<noteq> Exited"
  by (simp add: hookFile_Release_def engine_defs case_prod_beta split: option.split)

lemma map_outcome_Exited: "(map_outcome f x = Exited) = (x = Exited)"
  by (cases x) simp_all

lemma unplanned_never_exits: "planOf c = None \<Longrightarrow> result c s \<noteq> Exited"
  using planOf_None[of c]
  by (auto simp: result_def answer_def map_outcome_Exited read_never_exits release_never_exits)


lemma fatalCall_iff:
  "fatalCall c = (\<exists>h. (\<exists>name mode context. c = OnFs h (Fs_Mkdir name mode context))
                    \<or> (\<exists>name context. c = OnFs h (Fs_Rmdir name context))
                    \<or> (\<exists>name flags context. c = OnFs h (Fs_Open name flags context))
                    \<or> (\<exists>name context. c = OnFs h (Fs_OpenDir name context)))"
proof (cases c)
  case (OnFs h r)
  then show ?thesis by (cases r) (simp_all add: fatalFs_def)
next
  case (OnFile h r)
  then show ?thesis by simp
qed

lemma fatal_status:
  assumes "planOf c = Some p" "fatalCall c"
  shows "retStatus (p_short p st) = Some st"
proof (cases c)
  case (OnFs h r)
  with assms show ?thesis by (auto simp: planFs_fatal_status)
next
  case (OnFile h r)
  with assms show ?thesis by simp
qed

text \<open>
  Claim C2. When the Pre method of a request returns \<open>hooked = true\<close>, the process
  exits if and only if the method is \<open>Mkdir\<close>, \<open>Rmdir\<close>, \<open>Open\<close> or \<open>OpenDir\<close>
  of the hooked file system and the error is nil; the last thing it does then is the
  message at the fatal level, and the delegate is not called. With an error these four
  return the status of the error. \<open>Read\<close> and \<open>Release\<close> never exit.
\<close>

theorem fatal_contract_check:
  "(planOf c = Some p \<and> p_hook p = Some (before, after) \<and> before (world s) = ((True, ctx, err), w) \<longrightarrow>
      (result c s = Exited) = (fatalCall c \<and> err = None)
      \<and> (fatalCall c \<and> err = None \<longrightarrow>
            world (snd (serve c s)) = w
            \<and> last (events c s) = Log FatalLevel (p_op p @ '' is prehooked, but did not returned an error. h is very strange.'')
            \<and> (\<forall>ev \<in> set (events c s). \<not> isDelegate ev \<and> \<not> isPost ev))
      \<and> (fatalCall c \<and> err \<noteq> None \<longrightarrow>
            world (snd (serve c s)) = w
            \<and> result c s = Returned (p_short p (ToStatus err))
            \<and> retStatus (p_short p (ToStatus err)) = Some (ToStatus err)))
 \<and> (planOf c = None \<longrightarrow> result c s \<noteq> Exited)
 \<and> fatalCall c = (\<exists>h. (\<exists>name mode context. c = OnFs h (Fs_Mkdir name mode context))
                      \<or> (\<exists>name context. c = OnFs h (Fs_Rmdir name context))
                      \<or> (\<exists>name flags context. c = OnFs h (Fs_Open name flags context))
                      \<or> (\<exists>name context. c = OnFs h (Fs_OpenDir name context)))"
proof -
  have a: "planOf c = Some p \<and> p_hook p = Some (before, after) \<and> before (world s) = ((True, ctx, err), w) \<longrightarrow>
      (result c s = Exited) = (fatalCall c \<and> err = None)
      \<and> (fatalCall c \<and> err = None \<longrightarrow>
            world (snd (serve c s)) = w
            \<and> last (events c s) = Log FatalLevel (p_op p @ '' is prehooked, but did not returned an error. h is very strange.'')
            \<and> (\<forall>ev \<in> set (events c s). \<not> isDelegate ev \<and> \<not> isPost ev))
      \<and> (fatalCall c \<and> err \<noteq> None \<longrightarrow>
            world (snd (serve c s)) = w
            \<and> result c s = Returned (p_short p (ToStatus err))
            \<and> retStatus (p_short p (ToStatus err)) = Some (ToStatus err))"
    using serve_prehooked[of c p before after s ctx err w] fatal_status[of c p "ToStatus err"]
    by auto
  have b: "planOf c = None \<longrightarrow> result c s \<noteq> Exited"
    by (simp add: unplanned_never_exits)
  from a b fatalCall_iff[of c] show ?thesis by blast
qed

theorem fatal_contract_check_witness:
  "fatalCall (OnFs (mounted (Some (vetoHook None))) (Fs_Mkdir ''/d'' 0 nil) :: (nat, nat) call)
   \<and> result (OnFs (mounted (Some (vetoHook None))) (Fs_Mkdir ''/d'' 0 nil)) start = Exited
   \<and> world (snd (serve (OnFs (mounted (Some (vetoHook None))) (Fs_Mkdir ''/d'' 0 nil)) start)) = 0
   \<and> result (OnFs (mounted (Some (vetoHook (Some denied)))) (Fs_Mkdir ''/d'' 0 nil)) start = Returned (RetStatus 13)"
  using fatal_contract_check[where c = "OnFs (mounted (Some (vetoHook None))) (Fs_Mkdir ''/d'' 0 nil)"
      and p = "planFs (mounted (Some (vetoHook None))) (Fs_Mkdir ''/d'' 0 nil)"
      and before = "\<lambda>w. ((True, None, None), w)" and after = "\<lambda>code ctx w. ((False, None), w)"
      and s = start and ctx = None and err = None and w = 0]
    fatal_contract_check[where c = "OnFs (mounted (Some (vetoHook (Some denied)))) (Fs_Mkdir ''/d'' 0 nil)"
      and p = "planFs (mounted (Some (vetoHook (Some denied)))) (Fs_Mkdir ''/d'' 0 nil)"
      and before = "\<lambda>w. ((True, None, Some denied), w)" and after = "\<lambda>code ctx w. ((False, None), w)"
      and s = start and ctx = None and err = "Some denied" and w = 0]
  by (simp add: fixture_defs ToStatus_def fatalFs_def)


subsection \<open>A hooked Post method\<close>







subsection \<open>A hook that does not implement the interface\<close>

lemma read_passthrough:
  assumes "typeAssert asHookOnRead (h_hook h) = None"
  shows "(fst (serveFile h (File_Read dest off) s), world (snd (serveFile h (File_Read dest off) s))) =
           (case h_file h of None \<Rightarrow> (Panicked, world s)
            | Some f \<Rightarrow> (directFile f (File_Read dest off) (world s) :: ('w, 'c) reply outcome \<times> 'w))"
    and "\<forall>ev \<in> set (since s (snd (serveFile h (File_Read dest off) s))). \<not> isHook ev"
  using assms
  by (simp_all add: hookFile_Read_def engine_defs since_def split: option.split prod.split)

lemma release_passthrough:
  assumes "typeAssert asHookOnRelease (h_hook h) = None"
  shows "(fst (serveFile h File_Release s), world (snd (serveFile h File_Release s))) =
           (case h_file h of None \<Rightarrow> (Panicked, world s)
            | Some f \<Rightarrow> (directFile f File_Release (world s) :: ('w, 'c) reply outcome \<times> 'w))"
    and "\<forall>ev \<in> set (since s (snd (serveFile h File_Release s))). \<not> isHook ev"
  using assms
  by (simp_all add: hookFile_Release_def engine_defs since_def split: option.split prod.split)

lemma serve_passthrough:
  assumes "\<not> implements c"
  shows "(result c s, world (snd (serve c s))) = direct c (world s)
       \<and> (\<forall>ev \<in> set (events c s). \<not> isHook ev)"
proof (cases "planOf c")
  case (Some p)
  from assms planOf_facts(5)[OF Some] have nohook: "p_hook p = None" by simp
  show ?thesis
    using protocol_passthrough[OF nohook planOf_facts(1)[OF Some], of s] direct_plan[OF Some, of "world s"]
    by (simp add: serve_plan[OF Some] result_def events_def)
next
  case None
  from planOf_None[OF None] show ?thesis
  proof (elim disjE exE)
    fix h dest off
    assume c: "c = OnFile h (File_Read dest off)"
    with assms have "typeAssert asHookOnRead (h_hook h) = None"
      by (simp add: typeAssert_def split: option.splits)
    from read_passthrough[OF this, where dest = dest and off = off and s = s] c show ?thesis
      by (simp add: result_def events_def)
  next
    fix h
    assume c: "c = OnFile h File_Release"
    with assms have "typeAssert asHookOnRelease (h_hook h) = None"
      by (simp add: typeAssert_def split: option.splits)
    from release_passthrough[OF this, where s = s] c show ?thesis
      by (simp add: result_def events_def)
  qed
qed



subsection \<open>An Init that fails\<close>

text \<open>
  Claim C5. When the hook implements \<open>HookWithInit\<close> and \<open>Init\<close> returns an error,
  \<open>OnMount\<close> returns (the mount goes on) and leaves the hooked file system with a nil
  hook and the same delegate. From then on every request to the hooked file system
  returns what the delegate returns and leaves the world the delegate leaves, no method
  of the hook is called, and another \<open>OnMount\<close> keeps the hook nil.
\<close>

theorem lifecycle_degrade:
  assumes "typeAssert asHookWithInit (hook h) = Some i"
      and "FileSystem.OnMount (fs h) nodeFs (world s) = (u, w1)"
      and "Init i w1 = (Some e, w2)"
  shows "fst (HookFs_OnMount h nodeFs s) = (Returned (), h\<lparr>hook := None\<rparr>)
       \<and> world (snd (HookFs_OnMount h nodeFs s)) = w2
       \<and> (\<forall>r s'. (result (OnFs (h\<lparr>hook := None\<rparr>) r) s', world (snd (serve (OnFs (h\<lparr>hook := None\<rparr>) r) s')))
                    = directFs (h\<lparr>hook := None\<rparr>) r (world s')
                \<and> (\<forall>ev \<in> set (events (OnFs (h\<lparr>hook := None\<rparr>) r) s'). \<not> isHook ev))
       \<and> (\<forall>n s'. fst (HookFs_OnMount (h\<lparr>hook := None\<rparr>) n s') = (Returned (), h\<lparr>hook := None\<rparr>))"
proof -
  have a: "fst (HookFs_OnMount h nodeFs s) = (Returned (), h\<lparr>hook := None\<rparr>)
       \<and> world (snd (HookFs_OnMount h nodeFs s)) = w2"
    using assms by (simp add: HookFs_OnMount_def invoke_def logf_def Let_def)
  have b: "\<And>r s'. (result (OnFs (h\<lparr>hook := None\<rparr>) r) s', world (snd (serve (OnFs (h\<lparr>hook := None\<rparr>) r) s')))
                    = directFs (h\<lparr>hook := None\<rparr>) r (world s')
                \<and> (\<forall>ev \<in> set (events (OnFs (h\<lparr>hook := None\<rparr>) r) s'). \<not> isHook ev)"
  proof -
    fix r s'
    have "\<not> implements (OnFs (h\<lparr>hook := None\<rparr>) r)" by simp
    from serve_passthrough[OF this, of s'] show "?thesis r s'" by simp
  qed
  have c: "\<And>n s'. fst (HookFs_OnMount (h\<lparr>hook := None\<rparr>) n s') = (Returned (), h\<lparr>hook := None\<rparr>)"
    by (simp add: HookFs_OnMount_def invoke_def logf_def Let_def typeAssert_def split: prod.split)
  from a b c show ?thesis by blast
qed

theorem lifecycle_degrade_witness:
  "typeAssert asHookWithInit (hook (mounted (Some brokenHook))) \<noteq> None
   \<and> fst (HookFs_OnMount (mounted (Some brokenHook)) nil start) = (Returned (), mounted None)
   \<and> result (OnFs (mounted None) (Fs_GetAttr ''/a'' nil)) start = Returned (RetAttr (Addr 1) OK)
   \<and> result (OnFs (mounted (Some brokenHook)) (Fs_GetAttr ''/a'' nil)) start = Returned (RetAttr nil 13)"
  using lifecycle_degrade[of "mounted (Some brokenHook)" "\<lparr>Init = (\<lambda>w. (Some (Err 5 ''init failed''), w))\<rparr>"
      nil start "()" 1 "Err 5 ''init failed''" 1]
  by (simp add: fixture_defs result_def HookFs_GetAttr_def engine_defs ToStatus_def)


subsection \<open>The hook of a hooked file\<close>





subsection \<open>Write: a hooked Pre method reports zero bytes\<close>

text \<open>
  Claim C7. When the hook of a hooked file implements \<open>HookOnWrite\<close> and \<open>PreWrite\<close>
  returns \<open>hooked = true\<close>, \<open>Write\<close> returns a byte count of zero and the status of
  the error of \<open>PreWrite\<close>, whatever the data are. Nothing but the trace message, the Pre
  method and the debug message happens.
\<close>

theorem write_short_circuit_zero:
  assumes "typeAssert asHookOnWrite (h_hook h) = Some hk"
      and "PreWrite hk (h_name h) data off (world s) = ((True, ctx, err), w)"
  shows "fst (hookFile_Write h data off s) = Returned (0, ToStatus err)
       \<and> world (snd (hookFile_Write h data off s)) = w
       \<and> since s (snd (hookFile_Write h data off s)) =
           [Log TraceLevel ''f.Write'', PreHook ''Write'' [] True err, Log DebugLevel ''Write: Prehooked'']"
  using assms by (simp add: hookFile_Write_def invoke_def logf_def preEvent_def Let_def since_def)

theorem write_short_circuit_zero_witness:
  "typeAssert asHookOnWrite (h_hook (opened (Some (vetoHook (Some denied))))) \<noteq> None
   \<and> fst (hookFile_Write (opened (Some (vetoHook (Some denied)))) [1, 2, 3] 0 start) = Returned (0, 13)"
  using write_short_circuit_zero[of "opened (Some (vetoHook (Some denied)))"
      "\<lparr>PreWrite = (\<lambda>path buf offset w. ((True, None, Some denied), w)), PostWrite = (\<lambda>code ctx w. ((False, None), w))\<rparr>"
      "[1, 2, 3]" 0 start None "Some denied" 0]
  by (simp add: fixture_defs ToStatus_def)

subsection \<open>Release: the delegate is released once\<close>

text \<open>
  Claim C8. \<open>Release\<close> of a hooked file with a delegate file returns. The world it
  leaves is the world of \<open>PreRelease\<close> (when the hook implements \<open>HookOnRelease\<close>),
  then of \<open>Release\<close> of the delegate file, then of \<open>PostRelease\<close>: the delegate is
  released once on every path, whatever the two flags are, and among the calls made
  exactly one goes to the delegate.
\<close>

theorem release_exactly_once:
  assumes "h_file h = Some f"
  shows "fst (hookFile_Release h s) = Returned ()
       \<and> world (snd (hookFile_Release h s)) =
           (case typeAssert asHookOnRelease (h_hook h) of
              None \<Rightarrow> snd (File.Release f (world s))
            | Some hk \<Rightarrow>
                (case PreRelease hk (h_name h) (world s) of
                   ((prehooked, ctx), w1) \<Rightarrow>
                     (case File.Release f w1 of (u, w2) \<Rightarrow> snd (PostRelease hk ctx w2))))
       \<and> filter isDelegate (since s (snd (hookFile_Release h s))) = [FileCall ''Release'' RetUnit]"
  using assms
  by (simp add: hookFile_Release_def invoke_def logf_def Let_def since_def typeAssert_def case_prod_beta split: option.split)

theorem release_exactly_once_witness:
  "h_file (opened (Some (vetoHook None))) = Some fakeFile
   \<and> fst (hookFile_Release (opened (Some (vetoHook None))) start) = Returned ()
   \<and> world (snd (hookFile_Release (opened (Some (vetoHook None))) start)) = 1
   \<and> world (snd (hookFile_Release (opened None) start)) = 1"
  using release_exactly_once[of "opened (Some (vetoHook None))" fakeFile start]
    release_exactly_once[of "opened None" fakeFile start]
  by (simp add: fixture_defs)

subsection \<open>Read: a replacement of another length\<close>

text \<open>
  Claim C9. \<open>PreRead\<close> does not hook, the delegate returns a read result whose bytes are
  \<open>lbuf\<close>, and \<open>PostRead\<close> hooks with a buffer \<open>buf\<close> of another length: \<open>Read\<close>
  returns \<open>buf\<close> with the status of the error of \<open>PostRead\<close>. The mismatch costs one
  message at the warning level and nothing else.
\<close>

theorem read_posthook_length_mismatch:
  assumes "typeAssert asHookOnRead (h_hook h) = Some hk"
      and "PreRead hk (h_name h) (of_nat (length dest)) off (world s) = ((pbuf, False, ctx, perr), w1)"
      and "h_file h = Some f"
      and "File.Read f dest off w1 = ((Some rr, code), w2)"
      and "0 \<le> Size rr"
      and "Bytes rr (replicate (nat (Size rr)) 0) w2 = ((lbuf, OK), w3)"
      and "PostRead hk code lbuf ctx w3 = ((buf, True, err), w4)"
      and "length buf \<noteq> length lbuf"
  shows "fst (hookFile_Read h dest off s) = Returned (Some (ReadResultData buf), ToStatus err)
       \<and> since s (snd (hookFile_Read h dest off s)) =
           [Log TraceLevel ''f.Read'', PreHook ''Read'' pbuf False perr,
            FileCall ''Read'' (RetRead (Some rr) code), ResultCall ''Bytes'' (RetBytes lbuf OK),
            PostHook ''Read'' buf True err,
            Log WarnLevel ''Read: Posthooked, but posthookBuf length != lowerrRRBuf length. You may get a strange behavior.'',
            Log DebugLevel ''Read: Posthooked'']"
  using assms by (simp add: hookFile_Read_def invoke_def logf_def Let_def since_def)

theorem read_posthook_length_mismatch_witness:
  "length [9::byte] \<noteq> length [1, 2, 3, 4 :: byte]
   \<and> fst (hookFile_Read (opened (Some rewriteHook)) [0, 0, 0, 0] 0 start) = Returned (Some (ReadResultData [9]), OK)
   \<and> Log WarnLevel ''Read: Posthooked, but posthookBuf length != lowerrRRBuf length. You may get a strange behavior.''
       \<in> set (since start (snd (hookFile_Read (opened (Some rewriteHook)) [0, 0, 0, 0] 0 start)))"
  using read_posthook_length_mismatch[of "opened (Some rewriteHook)"
      "\<lparr>PreRead = (\<lambda>path len offset w. (([], False, Some 7, None), w)), PostRead = (\<lambda>code buf ctx w. (([9], True, None), w))\<rparr>"
      "[0, 0, 0, 0]" 0 start "[]" "Some 7" None 0 fakeFile "ReadResultData [1, 2, 3, 4]" OK 1 "[1, 2, 3, 4]" 1 "[9]" None 1]
  by (simp add: fixture_defs ToStatus_def ReadResultData_def)

subsection \<open>Path methods with data: a hooked Pre method returns nothing\<close>

text \<open>
  Claim C10. \<open>GetAttr\<close>, \<open>GetXAttr\<close>, \<open>ListXAttr\<close> and \<open>Readlink\<close> of the hooked file
  system: when the hook implements the interface and the Pre method returns
  \<open>hooked = true\<close>, the method returns the nil attribute, the nil byte slice, the nil list
  or the empty string, with the status of the error of the Pre method; for a nil error
  that status is \<open>fuse.OK\<close>.
\<close>

theorem empty_result_on_short_circuit:
  "(typeAssert asHookOnGetAttr (hook h) = Some ga \<and> PreGetAttr ga name (world s) = ((True, ctx, err), w)
      \<longrightarrow> fst (HookFs_GetAttr h name context s) = Returned (nil, ToStatus err))
 \<and> (typeAssert asHookOnGetXAttr (hook h) = Some gx \<and> PreGetXAttr gx name attribute (world s) = ((True, ctx, err), w)
      \<longrightarrow> fst (HookFs_GetXAttr h name attribute context s) = Returned ([], ToStatus err))
 \<and> (typeAssert asHookOnListXAttr (hook h) = Some lx \<and> PreListXAttr lx name (world s) = ((True, ctx, err), w)
      \<longrightarrow> fst (HookFs_ListXAttr h name context s) = Returned ([], ToStatus err))
 \<and> (typeAssert asHookOnReadlink (hook h) = Some rl \<and> PreReadlink rl name (world s) = ((True, ctx, err), w)
      \<longrightarrow> fst (HookFs_Readlink h name context s) = Returned ('''', ToStatus err))
 \<and> ToStatus None = OK"
  by (simp add: HookFs_GetAttr_def HookFs_GetXAttr_def HookFs_ListXAttr_def HookFs_Readlink_def
        invoke_def logf_def preEvent_def Let_def ToStatus_def)

theorem empty_result_on_short_circuit_witness:
  "fst (HookFs_GetAttr (mounted (Some (vetoHook None))) ''/a'' nil start) = Returned (nil, OK)
   \<and> fst (HookFs_GetXAttr (mounted (Some (vetoHook (Some denied)))) ''/a'' ''user.a'' nil start) = Returned ([], 13)
   \<and> fst (HookFs_ListXAttr (mounted (Some (vetoHook (Some denied)))) ''/a'' nil start) = Returned ([], 13)
   \<and> fst (HookFs_Readlink (mounted (Some (vetoHook None))) ''/a'' nil start) = Returned ('''', OK)"
  using empty_result_on_short_circuit[where h = "mounted (Some (vetoHook None))" and name = "''/a''" and s = start
      and ctx = None and err = None and w = 0
      and ga = "\<lparr>PreGetAttr = (\<lambda>path w. ((True, None, None), w)), PostGetAttr = (\<lambda>code ctx w. ((False, None), w))\<rparr>"
      and rl = "\<lparr>PreReadlink = (\<lambda>path w. ((True, None, None), w)), PostReadlink = (\<lambda>code ctx w. ((False, None), w))\<rparr>"]
    empty_result_on_short_circuit[where h = "mounted (Some (vetoHook (Some denied)))" and name = "''/a''" and s = start
      and ctx = None and err = "Some denied" and w = 0 and attribute = "''user.a''"
      and gx = "\<lparr>PreGetXAttr = (\<lambda>path attribute w. ((True, None, Some denied), w)), PostGetXAttr = (\<lambda>code ctx w. ((False, None), w))\<rparr>"
      and lx = "\<lparr>PreListXAttr = (\<lambda>path w. ((True, None, Some denied), w)), PostListXAttr = (\<lambda>code ctx w. ((False, None), w))\<rparr>"]
  by (simp add: fixture_defs ToStatus_def)

end
